theory Spec2Isabelle
  imports Main "HOL-Library.Word"
begin

section \<open>Data model of \<^verbatim>\<open>pyrinapi.go\<close>\<close>

text \<open>
  The node client (\<^verbatim>\<open>rpcclient.RPCClient\<close>), the logger, the context, the scheduler
  and \<^verbatim>\<open>time\<close> are collaborators outside the file. They are modelled as an
  environment. Every remote call takes its answer from a script of answers (record
  \<open>env\<close>). Every \<^verbatim>\<open>select\<close> takes the case it receives and the time of the receipt
  from a script of scheduler choices (an argument of the two loops). Everything the code
  does to a collaborator (a log line, a sleep, a call, a callback, a spawned goroutine) is
  appended to a timestamped trace. Time is counted in seconds; remote calls take no time
  of their own, and each call of the work-ready callback takes the time the environment
  scripts for it. The two goroutines are modelled one at a time, each against its own
  environment; their interleaving is not modelled.
\<close>

type_synonym client = nat

datatype error = RpcError string | Wrapped string error

datatype level = LInfo | LWarn | LError

datatype task = BlockTemplateListener | StatsThread

datatype select_case = CtxDone | BlockReadyChan | TickerC

text \<open>
  \<^verbatim>\<open>uint64\<close> and \<^verbatim>\<open>float64\<close> values of the node's answers are only passed on, never
  computed with; they are carried as their 64 bits.
\<close>

datatype action =
    Log level string "error option"
  | Sleep int
  | GetInfo
  | Reconnect
  | NewRPCClient string
  | RegisterForNewBlockTemplateNotifications
  | GetBlockDAGInfo
  | EstimateNetworkHashesPerSecond string nat
  | GetBlockTemplateCall string string
  | Recv select_case
  | BlockReadyCb
  | TickerReset int
  | Go task
  | RecordNetworkStats "64 word" "64 word" "64 word"

datatype 'a outcome = Returned 'a | Blocked | Panicked | Impossible

text \<open>
  \<open>Returned\<close>: the function returned. \<open>Blocked\<close>: the script of the environment ended
  while the function was still waiting for an answer or an event. \<open>Panicked\<close>: a run-time
  panic. \<open>Impossible\<close>: the scripted scheduler choice cannot happen in this state (the
  case is not ready at that time).
\<close>

record PyrinApi =
  address :: string
  blockWaitTime :: int
  pyrind :: "client option"
  connected :: bool

record GetBlockDAGInfoResponse =
  TipHashes :: "string list"
  BlockCount :: "64 word"
  Difficulty :: "64 word"

record StratumContext =
  WalletAddr :: string
  RemoteApp :: string

record env =
  infos :: "(error + bool) list"
  reconnects :: "error option list"
  dials :: "(error + client) list"
  registrations :: "error option list"
  dags :: "(error + GetBlockDAGInfoResponse) list"
  hashrates :: "(error + 64 word) list"
  templates :: "(error + string) list"
  callbacks :: "int list"

record world =
  ks :: PyrinApi
  now :: int
  trace :: "(int \<times> action) list"
  env :: env

definition emit :: "action \<Rightarrow> world \<Rightarrow> world" where
  "emit a w = w\<lparr>trace := trace w @ [(now w, a)]\<rparr>"

definition sleep :: "int \<Rightarrow> world \<Rightarrow> world" where
  "sleep d w = (emit (Sleep d) w)\<lparr>now := now w + max 0 d\<rparr>"

text \<open>
  A call of the caller's callback (\<^verbatim>\<open>blockCb\<close>, \<^verbatim>\<open>blockReadyCb\<close>). The script
  \<open>callbacks\<close> holds the durations of the successive calls; a call past the end of the
  script takes no time.
\<close>

definition blockReadyCb :: "world \<Rightarrow> world" where
  "blockReadyCb w =
     (case callbacks (env w) of
        [] \<Rightarrow> emit BlockReadyCb w
      | d # ds \<Rightarrow> (emit BlockReadyCb w)\<lparr>now := now w + max 0 d, env := (env w)\<lparr>callbacks := ds\<rparr>\<rparr>)"

subsection \<open>\<^verbatim>\<open>time.Ticker\<close>\<close>

text \<open>
  A ticker fires once every period. A tick that has fired and has not been received yet
  waits in the ticker's channel (\<open>buffered\<close>); a tick that fires while one is waiting is
  dropped, and the schedule goes on at the first period boundary after the present.
  \<^verbatim>\<open>Reset\<close> stops the ticker and starts it anew: the next tick arrives one new
  period after the reset, and no tick from before the reset is received after it.
  \<^verbatim>\<open>NewTicker\<close> and \<^verbatim>\<open>Reset\<close> panic on a non-positive duration.
  The record is brought up to date (\<open>fire_until\<close>) whenever the code touches the ticker.
\<close>

record Ticker =
  period :: int
  next_fire :: int
  buffered :: bool

definition fire_until :: "int \<Rightarrow> Ticker \<Rightarrow> Ticker" where
  "fire_until t tk =
     (if next_fire tk \<le> t
      then tk\<lparr>next_fire := next_fire tk + period tk * ((t - next_fire tk) div period tk + 1),
              buffered := True\<rparr>
      else tk)"

definition NewTicker :: "int \<Rightarrow> int \<Rightarrow> Ticker option" where
  "NewTicker t d =
     (if d \<le> 0 then None else Some \<lparr>period = d, next_fire = t + d, buffered = False\<rparr>)"

definition Reset :: "int \<Rightarrow> int \<Rightarrow> Ticker \<Rightarrow> Ticker option" where
  "Reset t d tk =
     (if d \<le> 0 then None else Some (tk\<lparr>period := d, next_fire := t + d, buffered := False\<rparr>))"

definition receive_tick :: "int \<Rightarrow> Ticker \<Rightarrow> Ticker option" where
  "receive_tick t tk =
     (if buffered (fire_until t tk) then Some ((fire_until t tk)\<lparr>buffered := False\<rparr>) else None)"

section \<open>The operations\<close>

subsection \<open>\<^verbatim>\<open>NewPyrinApi\<close>\<close>

text \<open>The argument \<open>dial\<close> is what \<^verbatim>\<open>rpcclient.NewRPCClient(address)\<close> returns.\<close>

definition NewPyrinApi :: "string \<Rightarrow> int \<Rightarrow> error + client \<Rightarrow> error + PyrinApi" where
  "NewPyrinApi addr bwt dial =
     (case dial of
        Inl err \<Rightarrow> Inl err
      | Inr c \<Rightarrow> Inr \<lparr>address = addr, blockWaitTime = bwt, pyrind = Some c, connected = True\<rparr>)"

subsection \<open>\<^verbatim>\<open>waitForSync\<close>\<close>

text \<open>
  The \<^verbatim>\<open>for\<close> loop, over the answers the node gives to the successive
  \<^verbatim>\<open>GetInfo\<close> calls: \<open>Inl err\<close> is a failed query, \<open>Inr b\<close> an answer with
  \<^verbatim>\<open>IsSynced = b\<close>. The result \<open>Returned (Some e)\<close> is the \<^verbatim>\<open>return\<close> inside the
  loop, \<open>Returned None\<close> the \<^verbatim>\<open>break\<close>. The unused answers are handed back.
\<close>

fun waitForSync_loop ::
  "(error + bool) list \<Rightarrow> world \<Rightarrow> error option outcome \<times> (error + bool) list \<times> world" where
  "waitForSync_loop [] w = (Blocked, [], emit GetInfo w)"
| "waitForSync_loop (Inl err # rs) w =
     (Returned (Some (Wrapped (''error fetching server info from pyrind @ '' @ address (ks w)) err)),
      rs, emit GetInfo w)"
| "waitForSync_loop (Inr isSynced # rs) w =
     (if isSynced then (Returned None, rs, emit GetInfo w)
      else waitForSync_loop rs
             (sleep 5 (emit (Log LWarn ''Pyrin is not synced, waiting for sync before starting bridge'' None)
                (emit GetInfo w))))"

text \<open>
  A call through a nil \<^verbatim>\<open>pyrind\<close> is a nil dereference. (No manager built by
  \<^verbatim>\<open>NewPyrinApi\<close> has a nil client, and \<^verbatim>\<open>reconnect\<close> never stores one.)
\<close>

definition waitForSync :: "bool \<Rightarrow> world \<Rightarrow> error option outcome \<times> world" where
  "waitForSync verbose w =
     (let w1 = (if verbose then emit (Log LInfo ''checking pyrind sync state'' None) w else w) in
      case pyrind (ks w1) of
        None \<Rightarrow> (Panicked, w1)
      | Some c \<Rightarrow>
          (case waitForSync_loop (infos (env w1)) w1 of (r, rs, w2) \<Rightarrow>
             (let w3 = w2\<lparr>env := (env w2)\<lparr>infos := rs\<rparr>\<rparr> in
              case r of
                Returned None \<Rightarrow>
                  (Returned None,
                   if verbose then emit (Log LInfo ''pyrind synced, starting server'' None) w3 else w3)
              | _ \<Rightarrow> (r, w3))))"

subsection \<open>\<^verbatim>\<open>reconnect\<close>\<close>

definition reconnect :: "world \<Rightarrow> error option outcome \<times> world" where
  "reconnect w =
     (case pyrind (ks w) of
        Some c \<Rightarrow>
          (case reconnects (env w) of
             [] \<Rightarrow> (Blocked, emit Reconnect w)
           | r # rs \<Rightarrow> (Returned r, (emit Reconnect w)\<lparr>env := (env w)\<lparr>reconnects := rs\<rparr>\<rparr>))
      | None \<Rightarrow>
          (case dials (env w) of
             [] \<Rightarrow> (Blocked, emit (NewRPCClient (address (ks w))) w)
           | d # ds \<Rightarrow>
               (let w1 = (emit (NewRPCClient (address (ks w))) w)\<lparr>env := (env w)\<lparr>dials := ds\<rparr>\<rparr> in
                case d of
                  Inl err \<Rightarrow> (Returned (Some err), w1)
                | Inr c \<Rightarrow> (Returned None, w1\<lparr>ks := (ks w1)\<lparr>pyrind := Some c\<rparr>\<rparr>))))"

subsection \<open>\<^verbatim>\<open>Start\<close>\<close>

text \<open>
  \<^verbatim>\<open>Start\<close> has no result; the value of \<^verbatim>\<open>ks.waitForSync(true)\<close> is dropped. The two
  \<^verbatim>\<open>go\<close> statements are recorded in the trace; the goroutines are modelled below, each
  on its own.
\<close>

definition Start :: "world \<Rightarrow> unit outcome \<times> world" where
  "Start w =
     (case waitForSync True w of
        (Returned _, w1) \<Rightarrow> (Returned (), emit (Go StatsThread) (emit (Go BlockTemplateListener) w1))
      | (Blocked, w1) \<Rightarrow> (Blocked, w1)
      | (Panicked, w1) \<Rightarrow> (Panicked, w1)
      | (Impossible, w1) \<Rightarrow> (Impossible, w1))"

subsection \<open>The \<^verbatim>\<open>select\<close> statements\<close>

text \<open>
  Both goroutines keep a world and a ticker. The context is the time at which it is
  cancelled, if ever. A scheduler choice \<open>(c, t)\<close> says that the \<^verbatim>\<open>select\<close> receives
  from case \<open>c\<close> at time \<open>t\<close>. A \<^verbatim>\<open>select\<close> blocks until the first of its cases
  is ready and then receives from any one of the cases that are ready. So a choice is
  possible when \<open>c\<close> is ready at \<open>t\<close> (the context has been cancelled by then; the
  notification handler is registered, so that the node may have called it; a tick is
  waiting) and the \<^verbatim>\<open>select\<close> has not waited past a ready case (\<open>prompt\<close>): either
  \<open>t\<close> is the moment the \<^verbatim>\<open>select\<close> is reached, or up to \<open>t\<close> the context was not
  cancelled and no tick was waiting or fired.
\<close>

record loop_state =
  lw :: world
  ticker :: Ticker

definition prompt :: "int option \<Rightarrow> loop_state \<Rightarrow> int \<Rightarrow> bool" where
  "prompt ctx l t =
     (t = now (lw l) \<or>
      ((case ctx of None \<Rightarrow> True | Some tc \<Rightarrow> t \<le> tc) \<and>
       \<not> buffered (ticker l) \<and> t \<le> next_fire (ticker l)))"

definition ready :: "int option \<Rightarrow> bool \<Rightarrow> loop_state \<Rightarrow> select_case \<Rightarrow> int \<Rightarrow> bool" where
  "ready ctx registered l c t =
     (now (lw l) \<le> t \<and> prompt ctx l t \<and>
      (case c of
         CtxDone \<Rightarrow> (case ctx of None \<Rightarrow> False | Some tc \<Rightarrow> tc \<le> t)
       | BlockReadyChan \<Rightarrow> registered
       | TickerC \<Rightarrow> buffered (fire_until t (ticker l))))"

fun abort :: "'a outcome \<Rightarrow> 'b outcome" where
  "abort Panicked = Panicked"
| "abort Impossible = Impossible"
| "abort _ = Blocked"

subsection \<open>\<^verbatim>\<open>startBlockTemplateListener\<close>\<close>

text \<open>
  The first half of the loop body: the sync check and, when it fails, the reconnect.
  \<open>None\<close> means that control goes on to the \<^verbatim>\<open>select\<close>.
\<close>

definition listener_sync :: "loop_state \<Rightarrow> unit outcome option \<times> loop_state" where
  "listener_sync l =
     (case waitForSync False (lw l) of
        (Returned None, w1) \<Rightarrow> (None, l\<lparr>lw := w1\<rparr>)
      | (Returned (Some err), w1) \<Rightarrow>
          (case reconnect
                  (emit (Log LError ''error checking pyrind sync state, attempting reconnect: '' (Some err)) w1) of
             (Returned None, w2) \<Rightarrow> (None, l\<lparr>lw := w2\<rparr>)
           | (Returned (Some err2), w2) \<Rightarrow>
               (None,
                l\<lparr>lw := sleep 5
                   (emit (Log LError ''error reconnecting to pyrind, waiting before retry: '' (Some err2)) w2)\<rparr>)
           | (r, w2) \<Rightarrow> (Some (abort r), l\<lparr>lw := w2\<rparr>))
      | (r, w1) \<Rightarrow> (Some (abort r), l\<lparr>lw := w1\<rparr>))"

text \<open>
  The second half: the \<^verbatim>\<open>select\<close> with its three cases. \<open>None\<close> means that the loop
  goes round again. In the notification case the callback runs first and the ticker is
  reset when it has returned.
\<close>

definition listener_select ::
  "int option \<Rightarrow> bool \<Rightarrow> select_case \<times> int \<Rightarrow> loop_state \<Rightarrow> unit outcome option \<times> loop_state" where
  "listener_select ctx registered choice l =
     (case choice of (c, t) \<Rightarrow>
        if \<not> ready ctx registered l c t then (Some Impossible, l)
        else
          (let w = emit (Recv c) ((lw l)\<lparr>now := t\<rparr>) in
           case c of
             CtxDone \<Rightarrow>
               (Some (Returned ()),
                l\<lparr>lw := emit (Log LWarn ''context cancelled, stopping block update listener'' None) w\<rparr>)
           | BlockReadyChan \<Rightarrow>
               (let w1 = blockReadyCb w in
                case Reset (now w1) (blockWaitTime (ks w1)) (ticker l) of
                  None \<Rightarrow> (Some Panicked, l\<lparr>lw := w1\<rparr>)
                | Some tk \<Rightarrow>
                    (None, l\<lparr>lw := emit (TickerReset (blockWaitTime (ks w1))) w1, ticker := tk\<rparr>))
           | TickerC \<Rightarrow>
               (case receive_tick t (ticker l) of
                  None \<Rightarrow> (Some Impossible, l)
                | Some tk \<Rightarrow> (None, l\<lparr>lw := blockReadyCb w, ticker := tk\<rparr>))))"

text \<open>The \<^verbatim>\<open>for\<close> loop, one scheduler choice for each time it reaches the \<^verbatim>\<open>select\<close>.\<close>

fun listener_loop ::
  "int option \<Rightarrow> bool \<Rightarrow> (select_case \<times> int) list \<Rightarrow> loop_state \<Rightarrow> unit outcome \<times> loop_state" where
  "listener_loop ctx registered [] l =
     (case listener_sync l of
        (Some r, l1) \<Rightarrow> (r, l1)
      | (None, l1) \<Rightarrow> (Blocked, l1))"
| "listener_loop ctx registered (choice # sched) l =
     (case listener_sync l of
        (Some r, l1) \<Rightarrow> (r, l1)
      | (None, l1) \<Rightarrow>
          (case listener_select ctx registered choice l1 of
             (Some r, l2) \<Rightarrow> (r, l2)
           | (None, l2) \<Rightarrow> listener_loop ctx registered sched l2))"

text \<open>
  The handler is registered once, before the loop. After a failed registration the node
  never calls the handler, so nothing is ever sent on \<^verbatim>\<open>blockReadyChan\<close>.
\<close>

definition startBlockTemplateListener ::
  "int option \<Rightarrow> (select_case \<times> int) list \<Rightarrow> world \<Rightarrow> unit outcome \<times> loop_state" where
  "startBlockTemplateListener ctx sched w =
     (let idle = \<lparr>period = 0, next_fire = 0, buffered = False\<rparr> in
      case pyrind (ks w) of
        None \<Rightarrow> (Panicked, \<lparr>lw = w, ticker = idle\<rparr>)
      | Some c \<Rightarrow>
          (case registrations (env w) of
             [] \<Rightarrow> (Blocked, \<lparr>lw = emit RegisterForNewBlockTemplateNotifications w, ticker = idle\<rparr>)
           | r # rs \<Rightarrow>
               (let w1 = (emit RegisterForNewBlockTemplateNotifications w)
                           \<lparr>env := (env w)\<lparr>registrations := rs\<rparr>\<rparr>;
                    w2 = (case r of
                            Some err \<Rightarrow>
                              emit (Log LError ''fatal: failed to register for block notifications from pyrin'' None) w1
                          | None \<Rightarrow> w1)
                in case NewTicker (now w2) (blockWaitTime (ks w2)) of
                     None \<Rightarrow> (Panicked, \<lparr>lw = w2, ticker = idle\<rparr>)
                   | Some tk \<Rightarrow> listener_loop ctx (r = None) sched \<lparr>lw = w2, ticker = tk\<rparr>)))"

subsection \<open>\<^verbatim>\<open>startStatsThread\<close>\<close>

text \<open>
  The body of \<^verbatim>\<open>case <-ticker.C\<close>. \<open>None\<close> means that the loop goes round again (both
  \<^verbatim>\<open>continue\<close> statements and the end of the case). \<^verbatim>\<open>dagResponse.TipHashes[0]\<close> panics
  on an empty slice.
\<close>

definition stats_tick :: "world \<Rightarrow> unit outcome option \<times> world" where
  "stats_tick w =
     (case pyrind (ks w) of
        None \<Rightarrow> (Some Panicked, w)
      | Some c \<Rightarrow>
          (case dags (env w) of
             [] \<Rightarrow> (Some Blocked, emit GetBlockDAGInfo w)
           | d # ds \<Rightarrow>
               (let w1 = (emit GetBlockDAGInfo w)\<lparr>env := (env w)\<lparr>dags := ds\<rparr>\<rparr> in
                case d of
                  Inl err \<Rightarrow>
                    (None,
                     emit (Log LWarn ''failed to get network hashrate from pyrin, prom stats will be out of date''
                             (Some err)) w1)
                | Inr dagResponse \<Rightarrow>
                    (case TipHashes dagResponse of
                       [] \<Rightarrow> (Some Panicked, w1)
                     | tip # _ \<Rightarrow>
                         (case hashrates (env w1) of
                            [] \<Rightarrow> (Some Blocked, emit (EstimateNetworkHashesPerSecond tip 1000) w1)
                          | h # hs \<Rightarrow>
                              (let w2 = (emit (EstimateNetworkHashesPerSecond tip 1000) w1)
                                          \<lparr>env := (env w1)\<lparr>hashrates := hs\<rparr>\<rparr> in
                               case h of
                                 Inl err \<Rightarrow>
                                   (None,
                                    emit (Log LWarn
                                            ''failed to get network hashrate from pyrin, prom stats will be out of date''
                                            (Some err)) w2)
                               | Inr hps \<Rightarrow>
                                   (None,
                                    emit (RecordNetworkStats hps (BlockCount dagResponse)
                                            (Difficulty dagResponse)) w2)))))))"

definition stats_select ::
  "int option \<Rightarrow> select_case \<times> int \<Rightarrow> loop_state \<Rightarrow> unit outcome option \<times> loop_state" where
  "stats_select ctx choice l =
     (case choice of (c, t) \<Rightarrow>
        if \<not> ready ctx False l c t then (Some Impossible, l)
        else
          (let w = emit (Recv c) ((lw l)\<lparr>now := t\<rparr>) in
           case c of
             CtxDone \<Rightarrow>
               (Some (Returned ()), l\<lparr>lw := emit (Log LWarn ''context cancelled, stopping stats thread'' None) w\<rparr>)
           | BlockReadyChan \<Rightarrow> (Some Impossible, l)
           | TickerC \<Rightarrow>
               (case receive_tick t (ticker l) of
                  None \<Rightarrow> (Some Impossible, l)
                | Some tk \<Rightarrow> (case stats_tick w of (r, w1) \<Rightarrow> (r, l\<lparr>lw := w1, ticker := tk\<rparr>)))))"

fun stats_loop ::
  "int option \<Rightarrow> (select_case \<times> int) list \<Rightarrow> loop_state \<Rightarrow> unit outcome \<times> loop_state" where
  "stats_loop ctx [] l = (Blocked, l)"
| "stats_loop ctx (choice # sched) l =
     (case stats_select ctx choice l of
        (Some r, l1) \<Rightarrow> (r, l1)
      | (None, l1) \<Rightarrow> stats_loop ctx sched l1)"

definition startStatsThread ::
  "int option \<Rightarrow> (select_case \<times> int) list \<Rightarrow> world \<Rightarrow> unit outcome \<times> loop_state" where
  "startStatsThread ctx sched w =
     (case NewTicker (now w) 30 of
        None \<Rightarrow> (Panicked, \<lparr>lw = w, ticker = \<lparr>period = 0, next_fire = 0, buffered = False\<rparr>\<rparr>)
      | Some tk \<Rightarrow> stats_loop ctx sched \<lparr>lw = w, ticker = tk\<rparr>)"

subsection \<open>\<^verbatim>\<open>GetBlockTemplate\<close>\<close>

text \<open>
  The package variable \<^verbatim>\<open>version\<close> is declared in another file and is an argument
  here; a template is an opaque payload.
\<close>

definition GetBlockTemplate ::
  "string \<Rightarrow> StratumContext \<Rightarrow> world \<Rightarrow> (error + string) outcome \<times> world" where
  "GetBlockTemplate version client w =
     (let call = GetBlockTemplateCall (WalletAddr client)
                   ([CHR 0x27] @ RemoteApp client @ [CHR 0x27] @
                    '' via pyrin-network/pyrin-stratum-bridge_'' @ version) in
      case pyrind (ks w) of
        None \<Rightarrow> (Panicked, w)
      | Some c \<Rightarrow>
          (case templates (env w) of
             [] \<Rightarrow> (Blocked, emit call w)
           | r # rs \<Rightarrow>
               (let w1 = (emit call w)\<lparr>env := (env w)\<lparr>templates := rs\<rparr>\<rparr> in
                case r of
                  Inl err \<Rightarrow>
                    (Returned (Inl (Wrapped ''failed fetching new block template from pyrin'' err)), w1)
                | Inr template \<Rightarrow> (Returned (Inr template), w1))))"

section \<open>Notions used in the proofs\<close>

text \<open>
  An action is quiet when it is neither a receipt of a \<^verbatim>\<open>select\<close> nor a callback, a
  ticker reset, a spawned goroutine or a forwarded sample. \<open>quiet_ext w w'\<close>: the world
  \<open>w'\<close> comes from \<open>w\<close> by quiet actions only, time has not gone back, and no field of
  the manager but \<^verbatim>\<open>pyrind\<close> has changed. \<open>count_of a w\<close> counts the occurrences of the
  action \<open>a\<close> in the trace, and \<open>feed_events w\<close> is the trace without its quiet actions.
  \<open>unsynced_round\<close> is one round of the \<^verbatim>\<open>waitForSync\<close> loop on a not-synced answer,
  \<open>verbose_start\<close> the first log line of \<^verbatim>\<open>waitForSync\<close>. \<open>due_after B l\<close>: no tick
  can be received before time \<open>B\<close>. \<open>no_cancel\<close>: the cancellation has not been received;
  \<open>cancelled_last\<close>: it has, and only the log line follows it.
\<close>

fun quiet :: "action \<Rightarrow> bool" where
  "quiet (Recv _) = False"
| "quiet BlockReadyCb = False"
| "quiet (TickerReset _) = False"
| "quiet (RecordNetworkStats _ _ _) = False"
| "quiet (Go _) = False"
| "quiet _ = True"

definition quiet_ext :: "world \<Rightarrow> world \<Rightarrow> bool" where
  "quiet_ext w w' \<longleftrightarrow>
     now w \<le> now w' \<and> address (ks w') = address (ks w) \<and>
     blockWaitTime (ks w') = blockWaitTime (ks w) \<and> connected (ks w') = connected (ks w) \<and>
     (pyrind (ks w) \<noteq> None \<longrightarrow> pyrind (ks w') \<noteq> None) \<and>
     (\<exists>ys. trace w' = trace w @ ys \<and> (\<forall>e\<in>set ys. quiet (snd e)))"

definition count_of :: "action \<Rightarrow> world \<Rightarrow> nat" where
  "count_of a w = length (filter (\<lambda>e. snd e = a) (trace w))"

definition unsynced_round :: "world \<Rightarrow> world" where
  "unsynced_round w =
     sleep 5 (emit (Log LWarn ''Pyrin is not synced, waiting for sync before starting bridge'' None)
       (emit GetInfo w))"

definition verbose_start :: "bool \<Rightarrow> world \<Rightarrow> world" where
  "verbose_start v w = (if v then emit (Log LInfo ''checking pyrind sync state'' None) w else w)"

definition feed_events :: "world \<Rightarrow> (int \<times> action) list" where
  "feed_events w = filter (\<lambda>e. \<not> quiet (snd e)) (trace w)"


definition no_cancel :: "world \<Rightarrow> bool" where
  "no_cancel w \<longleftrightarrow> Recv CtxDone \<notin> set (map snd (trace w))"

definition cancelled_last :: "string \<Rightarrow> world \<Rightarrow> bool" where
  "cancelled_last msg w \<longleftrightarrow>
     (\<exists>t pre. trace w = pre @ [(t, Recv CtxDone), (t, Log LWarn msg None)] \<and>
        Recv CtxDone \<notin> set (map snd pre))"

subsection \<open>Example worlds\<close>

text \<open>
  A manager for the node at 127.0.0.1:13110 with an interval of 30 seconds, at second 0
  with an empty trace; the worlds below differ in what the node answers.
\<close>

definition api0 :: PyrinApi where
  "api0 = \<lparr>address = ''127.0.0.1:13110'', blockWaitTime = 30, pyrind = Some 0, connected = True\<rparr>"

definition env0 :: env where
  "env0 = \<lparr>infos = [], reconnects = [], dials = [], registrations = [], dags = [],
           hashrates = [], templates = [], callbacks = []\<rparr>"

definition world0 :: world where
  "world0 = \<lparr>ks = api0, now = 0, trace = [], env = env0\<rparr>"

definition world_unsynced_then_fails :: world where
  "world_unsynced_then_fails =
     world0\<lparr>env := env0\<lparr>infos := [Inr False, Inl (RpcError ''connection refused''), Inr True]\<rparr>\<rparr>"

definition world_unsynced_twice :: world where
  "world_unsynced_twice = world0\<lparr>env := env0\<lparr>infos := [Inr False, Inr False, Inr True]\<rparr>\<rparr>"

definition world_fails_twice :: world where
  "world_fails_twice =
     world0\<lparr>env := env0\<lparr>infos := [Inl (RpcError ''connection refused''),
                                     Inl (RpcError ''connection refused''), Inr True]\<rparr>\<rparr>"

definition world_unreachable :: world where
  "world_unreachable = world0\<lparr>env := env0\<lparr>infos := [Inl (RpcError ''connection refused'')]\<rparr>\<rparr>"

definition world_synced :: world where
  "world_synced = world0\<lparr>env := env0\<lparr>infos := [Inr True]\<rparr>\<rparr>"

definition feed0 :: loop_state where
  "feed0 = \<lparr>lw = world0\<lparr>env := env0\<lparr>infos := [Inr True, Inr True], callbacks := [2]\<rparr>\<rparr>,
            ticker = \<lparr>period = 30, next_fire = 30, buffered = False\<rparr>\<rparr>"



definition world_slow_sync :: world where
  "world_slow_sync =
     world0\<lparr>env := env0\<lparr>infos := replicate 7 (Inr False) @ [Inr True, Inr True],
                         registrations := [None]\<rparr>\<rparr>"

definition slow_feed :: loop_state where
  "slow_feed =
     \<lparr>lw = world_slow_sync
        \<lparr>trace := [(0, RegisterForNewBlockTemplateNotifications)],
         env := env0\<lparr>infos := replicate 7 (Inr False) @ [Inr True, Inr True]\<rparr>\<rparr>,
      ticker = \<lparr>period = 30, next_fire = 30, buffered = False\<rparr>\<rparr>"

definition world_node_down :: world where
  "world_node_down =
     world0\<lparr>env := env0\<lparr>infos := [Inl (RpcError ''connection refused'')],
                         reconnects := [Some (RpcError ''connection refused'')],
                         registrations := [None]\<rparr>\<rparr>"

definition node_down_feed :: loop_state where
  "node_down_feed = \<lparr>lw = world_node_down, ticker = \<lparr>period = 30, next_fire = 30, buffered = False\<rparr>\<rparr>"

definition world_synced_feed :: world where
  "world_synced_feed = world0\<lparr>env := env0\<lparr>infos := [Inr True, Inr True], registrations := [None]\<rparr>\<rparr>"

definition world_registration_fails :: world where
  "world_registration_fails =
     world0\<lparr>env := env0\<lparr>infos := [Inr True, Inr True, Inr True],
                         registrations := [Some (RpcError ''notifications unavailable'')]\<rparr>\<rparr>"

definition dag_no_tips :: GetBlockDAGInfoResponse where
  "dag_no_tips = \<lparr>TipHashes = [], BlockCount = 0, Difficulty = 0\<rparr>"

definition dag_one_tip :: GetBlockDAGInfoResponse where
  "dag_one_tip = \<lparr>TipHashes = [''a3f1'', ''77c0''], BlockCount = 1200, Difficulty = 0x4059000000000000\<rparr>"

definition stats0 :: loop_state where
  "stats0 =
     \<lparr>lw = world0\<lparr>env := env0\<lparr>dags := [Inl (RpcError ''timeout''), Inr dag_one_tip, Inr dag_one_tip],
                               hashrates := [Inl (RpcError ''timeout''), Inr 5000000]\<rparr>\<rparr>,
      ticker = \<lparr>period = 30, next_fire = 30, buffered = False\<rparr>\<rparr>"

definition world_stats :: "(error + GetBlockDAGInfoResponse) list \<Rightarrow> (error + 64 word) list \<Rightarrow> world" where
  "world_stats ds hs = world0\<lparr>env := env0\<lparr>dags := ds, hashrates := hs\<rparr>\<rparr>"

definition world_flag_down :: world where
  "world_flag_down = world0\<lparr>ks := api0\<lparr>connected := False\<rparr>, env := env0\<lparr>reconnects := [None]\<rparr>\<rparr>"

section \<open>Lemmas\<close>

lemma quiet_ext_refl: "quiet_ext w w"
  by (simp add: quiet_ext_def)

lemma quiet_ext_trans: "quiet_ext w1 w2 \<Longrightarrow> quiet_ext w2 w3 \<Longrightarrow> quiet_ext w1 w3"
  unfolding quiet_ext_def by (elim conjE exE) (simp, fastforce)

lemma quiet_ext_emit: "quiet a \<Longrightarrow> quiet_ext w (emit a w)"
  by (simp add: quiet_ext_def emit_def)

lemma quiet_ext_sleep: "quiet_ext w (sleep d w)"
  by (simp add: quiet_ext_def emit_def sleep_def)

lemma quiet_ext_emit_sleep: "quiet a \<Longrightarrow> quiet_ext w (sleep d (emit a w))"
  by (rule quiet_ext_trans [OF quiet_ext_emit quiet_ext_sleep])

lemma quiet_ext_env: "quiet_ext w w' \<Longrightarrow> quiet_ext w (w'\<lparr>env := e\<rparr>)"
  by (simp add: quiet_ext_def)

lemma waitForSync_loop_quiet:
  "waitForSync_loop rs w = (r, rs', w') \<Longrightarrow> quiet_ext w w' \<and> env w' = env w"
proof (induction rs w arbitrary: r rs' w' rule: waitForSync_loop.induct)
  case (1 w)
  then show ?case by (auto simp: quiet_ext_emit) (simp add: emit_def)
next
  case (2 err rs w)
  then show ?case by (auto simp: quiet_ext_emit) (simp add: emit_def)
next
  case (3 isSynced rs w)
  show ?case
  proof (cases isSynced)
    case True
    with 3 show ?thesis by (auto simp: quiet_ext_emit) (simp add: emit_def)
  next
    case False
    let ?w1 = "sleep 5 (emit (Log LWarn ''Pyrin is not synced, waiting for sync before starting bridge'' None) (emit GetInfo w))"
    from False 3 have "quiet_ext ?w1 w' \<and> env w' = env ?w1" by simp
    moreover have "quiet_ext w ?w1"
      by (rule quiet_ext_trans [OF quiet_ext_emit quiet_ext_emit_sleep]) simp_all
    moreover have "env ?w1 = env w" by (simp add: sleep_def emit_def)
    ultimately show ?thesis using quiet_ext_trans by auto
  qed
qed

lemma waitForSync_quiet: "waitForSync v w = (r, w') \<Longrightarrow> quiet_ext w w'"
proof -
  assume a: "waitForSync v w = (r, w')"
  define w1 where "w1 = (if v then emit (Log LInfo ''checking pyrind sync state'' None) w else w)"
  have q1: "quiet_ext w w1" by (simp add: w1_def quiet_ext_emit quiet_ext_refl)
  show ?thesis
  proof (cases "pyrind (ks w1)")
    case None
    with a q1 show ?thesis by (simp add: waitForSync_def w1_def Let_def split: if_splits)
  next
    case (Some c)
    obtain r2 rs w2 where l: "waitForSync_loop (infos (env w1)) w1 = (r2, rs, w2)"
      by (cases "waitForSync_loop (infos (env w1)) w1") auto
    then have q2: "quiet_ext w1 w2" using waitForSync_loop_quiet by blast
    let ?w3 = "w2\<lparr>env := (env w2)\<lparr>infos := rs\<rparr>\<rparr>"
    have q3: "quiet_ext w ?w3" using q1 q2 quiet_ext_trans quiet_ext_env by blast
    have "w' = ?w3 \<or> w' = emit (Log LInfo ''pyrind synced, starting server'' None) ?w3"
      using a Some l unfolding waitForSync_def w1_def [symmetric] Let_def
      by (auto split: outcome.splits option.splits if_splits)
    then show ?thesis using q3 quiet_ext_trans quiet_ext_emit quiet.simps(6) by blast
  qed
qed

lemma reconnect_quiet: "reconnect w = (r, w') \<Longrightarrow> quiet_ext w w'"
  unfolding reconnect_def Let_def
  by (auto split: option.splits list.splits sum.splits simp: quiet_ext_def emit_def)

lemma listener_sync_quiet:
  assumes "listener_sync l = (r, l')"
  shows "quiet_ext (lw l) (lw l') \<and> ticker l' = ticker l"
proof -
  obtain r1 w1 where s: "waitForSync False (lw l) = (r1, w1)"
    by (cases "waitForSync False (lw l)") auto
  then have q1: "quiet_ext (lw l) w1" by (rule waitForSync_quiet)
  show ?thesis
  proof (cases "\<exists>err. r1 = Returned (Some err)")
    case False
    with assms s have "lw l' = w1 \<and> ticker l' = ticker l"
      by (auto simp: listener_sync_def split: outcome.splits option.splits)
    with q1 show ?thesis by simp
  next
    case True
    then obtain err where e: "r1 = Returned (Some err)" by blast
    let ?w = "emit (Log LError ''error checking pyrind sync state, attempting reconnect: '' (Some err)) w1"
    obtain r2 w2 where rc: "reconnect ?w = (r2, w2)" by (cases "reconnect ?w") auto
    have q2: "quiet_ext (lw l) w2"
      using q1 reconnect_quiet [OF rc] quiet_ext_emit [of "Log LError ''error checking pyrind sync state, attempting reconnect: '' (Some err)" w1]
      by (auto intro: quiet_ext_trans)
    have tk: "ticker l' = ticker l"
      using assms s e rc by (auto simp: listener_sync_def split: outcome.splits option.splits)
    show ?thesis
    proof (cases "\<exists>err2. r2 = Returned (Some err2)")
      case False
      with assms s e rc have "lw l' = w2"
        by (auto simp: listener_sync_def split: outcome.splits option.splits)
      with q2 tk show ?thesis by simp
    next
      case True
      then obtain err2 where "r2 = Returned (Some err2)" by blast
      let ?w3 = "sleep 5
          (emit (Log LError ''error reconnecting to pyrind, waiting before retry: '' (Some err2)) w2)"
      from \<open>r2 = Returned (Some err2)\<close> assms s e rc have eq: "lw l' = ?w3"
        by (auto simp: listener_sync_def)
      have "quiet_ext w2 ?w3"
        by (rule quiet_ext_emit_sleep) simp
      then have "quiet_ext (lw l) ?w3" by (rule quiet_ext_trans [OF q2])
      then have "quiet_ext (lw l) (lw l')" by (simp only: eq)
      with tk show ?thesis by (rule_tac conjI)
    qed
  qed
qed

lemma count_of_emit: "count_of a (emit b w) = count_of a w + (if b = a then 1 else 0)"
  by (simp add: count_of_def emit_def)

lemma count_of_sleep: "count_of a (sleep d w) = count_of a w + (if Sleep d = a then 1 else 0)"
  by (simp add: count_of_def emit_def sleep_def)

lemma count_of_env [simp]: "count_of a (w\<lparr>env := e\<rparr>) = count_of a w"
  by (simp add: count_of_def)

lemma unsynced_round_simps:
  "now (unsynced_round w) = now w + 5"
  "ks (unsynced_round w) = ks w"
  "env (unsynced_round w) = env w"
  "count_of GetInfo (unsynced_round w) = count_of GetInfo w + 1"
  "count_of (Sleep 5) (unsynced_round w) = count_of (Sleep 5) w + 1"
  by (simp_all add: unsynced_round_def count_of_emit count_of_sleep) (simp_all add: sleep_def emit_def)

lemma unsynced_rounds:
  "now ((unsynced_round ^^ n) w) = now w + 5 * int n \<and>
   ks ((unsynced_round ^^ n) w) = ks w \<and>
   env ((unsynced_round ^^ n) w) = env w \<and>
   count_of GetInfo ((unsynced_round ^^ n) w) = count_of GetInfo w + n \<and>
   count_of (Sleep 5) ((unsynced_round ^^ n) w) = count_of (Sleep 5) w + n"
  by (induction n) (simp_all add: unsynced_round_simps)

lemma waitForSync_loop_unsynced:
  "waitForSync_loop (replicate n (Inr False) @ rs) w = waitForSync_loop rs ((unsynced_round ^^ n) w)"
proof (induction n arbitrary: w)
  case 0
  show ?case by simp
next
  case (Suc n)
  have "waitForSync_loop (replicate (Suc n) (Inr False) @ rs) w =
        waitForSync_loop (replicate n (Inr False) @ rs) (unsynced_round w)"
    by (simp add: unsynced_round_def)
  also have "\<dots> = waitForSync_loop rs ((unsynced_round ^^ n) (unsynced_round w))"
    by (rule Suc.IH)
  finally show ?case by (simp add: funpow_swap1)
qed

lemma waitForSync_loop_error_source:
  "waitForSync_loop rs w = (Returned (Some e), rs', w') \<Longrightarrow> \<exists>err. Inl err \<in> set rs"
  by (induction rs w rule: waitForSync_loop.induct) (auto split: if_splits)

lemma waitForSync_loop_never_panics:
  "fst (waitForSync_loop rs w) \<noteq> Panicked \<and> fst (waitForSync_loop rs w) \<noteq> Impossible"
  by (induction rs w rule: waitForSync_loop.induct) auto

lemma emit_fields:
  "ks (emit a w) = ks w" "env (emit a w) = env w" "now (emit a w) = now w"
  by (simp_all add: emit_def)

lemma sleep_fields:
  "ks (sleep d w) = ks w" "env (sleep d w) = env w" "now (sleep d w) = now w + max 0 d"
  by (simp_all add: sleep_def emit_def)

lemma verbose_start_simps:
  "now (verbose_start v w) = now w" "ks (verbose_start v w) = ks w" "env (verbose_start v w) = env w"
  "count_of GetInfo (verbose_start v w) = count_of GetInfo w"
  "count_of (Sleep 5) (verbose_start v w) = count_of (Sleep 5) w"
  by (simp_all add: verbose_start_def count_of_emit) (simp_all add: emit_def)

lemma waitForSync_query_fails:
  assumes "pyrind (ks w) \<noteq> None" and "infos (env w) = replicate n (Inr False) @ Inl err # rest"
  shows "waitForSync v w =
           (Returned (Some (Wrapped (''error fetching server info from pyrind @ '' @ address (ks w)) err)),
            (emit GetInfo ((unsynced_round ^^ n) (verbose_start v w)))
              \<lparr>env := (env w)\<lparr>infos := rest\<rparr>\<rparr>)"
proof -
  from assms(1) obtain c where c: "pyrind (ks w) = Some c" by auto
  have "waitForSync_loop (infos (env w)) (verbose_start v w) =
          (Returned (Some (Wrapped (''error fetching server info from pyrind @ '' @ address (ks w)) err)),
           rest, emit GetInfo ((unsynced_round ^^ n) (verbose_start v w)))"
    by (simp add: assms(2) waitForSync_loop_unsynced unsynced_rounds verbose_start_simps)
  moreover have "env (emit GetInfo ((unsynced_round ^^ n) (verbose_start v w))) = env w"
    by (simp add: emit_def unsynced_rounds verbose_start_simps)
  ultimately show ?thesis
    unfolding waitForSync_def verbose_start_def [symmetric]
    by (simp add: Let_def c verbose_start_simps)
qed

lemma waitForSync_synced:
  assumes "pyrind (ks w) \<noteq> None" and "infos (env w) = replicate n (Inr False) @ Inr True # rest"
  shows "\<exists>w'. waitForSync v w = (Returned None, w') \<and> infos (env w') = rest \<and>
           now w' = now w + 5 * int n \<and>
           count_of GetInfo w' = count_of GetInfo w + n + 1 \<and>
           count_of (Sleep 5) w' = count_of (Sleep 5) w + n"
proof -
  from assms(1) obtain c where c: "pyrind (ks w) = Some c" by auto
  let ?w2 = "emit GetInfo ((unsynced_round ^^ n) (verbose_start v w))"
  let ?w3 = "?w2\<lparr>env := (env w)\<lparr>infos := rest\<rparr>\<rparr>"
  have "waitForSync_loop (infos (env w)) (verbose_start v w) = (Returned None, rest, ?w2)"
    by (simp add: assms(2) waitForSync_loop_unsynced)
  moreover have "env ?w2 = env w"
    by (simp add: emit_def unsynced_rounds verbose_start_simps)
  ultimately have eq: "waitForSync v w =
      (Returned None, if v then emit (Log LInfo ''pyrind synced, starting server'' None) ?w3 else ?w3)"
    unfolding waitForSync_def verbose_start_def [symmetric]
    by (simp add: Let_def c verbose_start_simps emit_fields unsynced_rounds)
  show ?thesis unfolding eq
    by (simp add: count_of_emit emit_fields unsynced_rounds verbose_start_simps)
qed

lemma waitForSync_error_source:
  assumes "waitForSync v w = (Returned (Some e), w')"
  shows "\<exists>err. Inl err \<in> set (infos (env w))"
proof -
  have "\<exists>rs' w2. waitForSync_loop (infos (env w)) (verbose_start v w) = (Returned (Some e), rs', w2)"
    using assms unfolding waitForSync_def verbose_start_def [symmetric] Let_def
    by (simp add: verbose_start_simps split: option.splits prod.splits outcome.splits)
  then show ?thesis using waitForSync_loop_error_source by blast
qed

lemmas example_worlds = api0_def env0_def world0_def

lemma fire_until_period [simp]: "period (fire_until t tk) = period tk"
  by (simp add: fire_until_def)




lemma blockReadyCb_fields:
  "ks (blockReadyCb w) = ks w" "now w \<le> now (blockReadyCb w)"
  "trace (blockReadyCb w) = trace w @ [(now w, BlockReadyCb)]"
  by (simp_all add: blockReadyCb_def emit_def split: list.splits)

lemma count_of_blockReadyCb:
  "count_of a (blockReadyCb w) = count_of a w + (if BlockReadyCb = a then 1 else 0)"
  by (simp add: count_of_def blockReadyCb_fields)

lemma count_of_now [simp]: "count_of a (w\<lparr>now := t\<rparr>) = count_of a w"
  by (simp add: count_of_def)

lemma listener_select_impossible:
  "\<not> ready ctx reg l c t \<Longrightarrow> listener_select ctx reg (c, t) l = (Some Impossible, l)"
  by (simp add: listener_select_def)

lemma listener_select_done:
  "ready ctx reg l CtxDone t \<Longrightarrow>
   listener_select ctx reg (CtxDone, t) l =
     (Some (Returned ()),
      l\<lparr>lw := emit (Log LWarn ''context cancelled, stopping block update listener'' None)
                (emit (Recv CtxDone) ((lw l)\<lparr>now := t\<rparr>))\<rparr>)"
  by (simp add: listener_select_def Let_def)

lemma listener_select_push:
  "ready ctx reg l BlockReadyChan t \<Longrightarrow> 0 < blockWaitTime (ks (lw l)) \<Longrightarrow>
   listener_select ctx reg (BlockReadyChan, t) l =
     (None,
      l\<lparr>lw := emit (TickerReset (blockWaitTime (ks (lw l))))
                (blockReadyCb (emit (Recv BlockReadyChan) ((lw l)\<lparr>now := t\<rparr>))),
        ticker := (ticker l)
          \<lparr>period := blockWaitTime (ks (lw l)),
           next_fire := now (blockReadyCb (emit (Recv BlockReadyChan) ((lw l)\<lparr>now := t\<rparr>))) +
                        blockWaitTime (ks (lw l)),
           buffered := False\<rparr>\<rparr>)"
  by (simp add: listener_select_def Let_def Reset_def emit_fields blockReadyCb_fields)

lemma listener_select_push_panic:
  "ready ctx reg l BlockReadyChan t \<Longrightarrow> blockWaitTime (ks (lw l)) \<le> 0 \<Longrightarrow>
   listener_select ctx reg (BlockReadyChan, t) l =
     (Some Panicked, l\<lparr>lw := blockReadyCb (emit (Recv BlockReadyChan) ((lw l)\<lparr>now := t\<rparr>))\<rparr>)"
  by (simp add: listener_select_def Let_def Reset_def emit_fields blockReadyCb_fields)

lemma listener_select_tick:
  "ready ctx reg l TickerC t \<Longrightarrow>
   listener_select ctx reg (TickerC, t) l =
     (None,
      l\<lparr>lw := blockReadyCb (emit (Recv TickerC) ((lw l)\<lparr>now := t\<rparr>)),
        ticker := (fire_until t (ticker l))\<lparr>buffered := False\<rparr>\<rparr>)"
  by (simp add: listener_select_def Let_def receive_tick_def ready_def)



lemma listener_select_stop_trace:
  assumes "listener_select ctx reg (c, t) l = (Some r, l2)"
  shows "\<exists>ys. trace (lw l2) = trace (lw l) @ ys \<and> (\<forall>t'. (t', Recv TickerC) \<notin> set ys)"
proof (cases "ready ctx reg l c t")
  case False
  with assms show ?thesis by (simp add: listener_select_impossible)
next
  case True
  show ?thesis
  proof (cases c)
    case CtxDone
    with assms True show ?thesis by (auto simp: listener_select_done emit_def)
  next
    case BlockReadyChan
    with assms True show ?thesis
      by (cases "0 < blockWaitTime (ks (lw l))")
         (auto simp: listener_select_push listener_select_push_panic emit_def blockReadyCb_fields)
  next
    case TickerC
    with assms True show ?thesis by (simp add: listener_select_tick)
  qed
qed

lemma listener_sync_trace:
  assumes "listener_sync l = (r, l1)"
  shows "\<exists>ys. trace (lw l1) = trace (lw l) @ ys \<and> (\<forall>e\<in>set ys. quiet (snd e))"
  using listener_sync_quiet [OF assms] by (simp add: quiet_ext_def)


lemmas run_defs =
  startBlockTemplateListener_def listener_sync_def listener_select_def waitForSync_def
  reconnect_def ready_def prompt_def NewTicker_def Reset_def receive_tick_def fire_until_def
  blockReadyCb_def emit_def sleep_def Let_def

lemma quiet_ext_count: "quiet_ext w w' \<Longrightarrow> \<not> quiet a \<Longrightarrow> count_of a w' = count_of a w"
proof -
  assume q: "quiet_ext w w'" and a: "\<not> quiet a"
  then obtain ys where ys: "trace w' = trace w @ ys" "\<forall>e\<in>set ys. quiet (snd e)"
    by (auto simp: quiet_ext_def)
  from ys(2) a have "filter (\<lambda>e. snd e = a) ys = []" by (auto simp: filter_empty_conv)
  with ys(1) show ?thesis by (simp add: count_of_def)
qed

lemma abort_Panicked: "(abort r = Panicked) = (r = Panicked)"
  by (cases r) simp_all

lemma abort_not_Returned: "abort r \<noteq> Returned x"
  by (cases r) simp_all

lemma waitForSync_no_panic:
  "pyrind (ks w) \<noteq> None \<Longrightarrow> fst (waitForSync v w) \<noteq> Panicked"
proof -
  assume p: "pyrind (ks w) \<noteq> None"
  then obtain c where c: "pyrind (ks (verbose_start v w)) = Some c"
    by (auto simp: verbose_start_simps)
  obtain r rs w2 where l: "waitForSync_loop (infos (env (verbose_start v w))) (verbose_start v w) = (r, rs, w2)"
    by (metis prod_cases3)
  then have "r \<noteq> Panicked" using waitForSync_loop_never_panics by (metis fst_conv)
  then show ?thesis
    unfolding waitForSync_def verbose_start_def [symmetric] Let_def
    by (simp add: c l split: outcome.splits option.splits)
qed

lemma reconnect_no_panic: "fst (reconnect w) \<noteq> Panicked"
  by (simp add: reconnect_def Let_def split: option.splits list.splits sum.splits)

lemma listener_sync_no_panic:
  assumes "pyrind (ks (lw l)) \<noteq> None"
  shows "fst (listener_sync l) \<noteq> Some Panicked"
proof -
  obtain r1 w1 where s: "waitForSync False (lw l) = (r1, w1)"
    by (cases "waitForSync False (lw l)") auto
  with waitForSync_no_panic [OF assms, of False] have r1: "r1 \<noteq> Panicked" by simp
  show ?thesis
  proof (cases "\<exists>err. r1 = Returned (Some err)")
    case False
    with s r1 show ?thesis
      by (auto simp: listener_sync_def abort_Panicked split: outcome.splits option.splits)
  next
    case True
    then obtain err where e: "r1 = Returned (Some err)" by blast
    let ?w = "emit (Log LError ''error checking pyrind sync state, attempting reconnect: '' (Some err)) w1"
    obtain r2 w2 where rc: "reconnect ?w = (r2, w2)" by (cases "reconnect ?w") auto
    with reconnect_no_panic [of ?w] have "r2 \<noteq> Panicked" by simp
    with s e rc show ?thesis
      by (auto simp: listener_sync_def abort_Panicked split: outcome.splits option.splits)
  qed
qed

lemma listener_sync_not_Returned: "fst (listener_sync l) \<noteq> Some (Returned x)"
proof -
  obtain r1 w1 where s: "waitForSync False (lw l) = (r1, w1)"
    by (cases "waitForSync False (lw l)") auto
  show ?thesis
  proof (cases "\<exists>err. r1 = Returned (Some err)")
    case False
    with s show ?thesis
      by (auto simp: listener_sync_def abort_not_Returned split: outcome.splits option.splits)
  next
    case True
    then obtain err where e: "r1 = Returned (Some err)" by blast
    let ?w = "emit (Log LError ''error checking pyrind sync state, attempting reconnect: '' (Some err)) w1"
    obtain r2 w2 where rc: "reconnect ?w = (r2, w2)" by (cases "reconnect ?w") auto
    with s e show ?thesis
      by (auto simp: listener_sync_def abort_not_Returned split: outcome.splits option.splits)
  qed
qed

lemma listener_select_callbacks:
  assumes "listener_select ctx reg (c, t) l = (r, l2)"
  shows "count_of BlockReadyCb (lw l2) =
           count_of BlockReadyCb (lw l) + (if ready ctx reg l c t \<and> c \<noteq> CtxDone then 1 else 0)"
proof (cases "ready ctx reg l c t")
  case False
  with assms show ?thesis by (simp add: listener_select_impossible)
next
  case True
  have base: "count_of a ((lw l)\<lparr>now := t\<rparr>) = count_of a (lw l)" for a
    by (simp add: count_of_def)
  show ?thesis
  proof (cases c)
    case CtxDone
    with assms True show ?thesis by (auto simp: listener_select_done count_of_emit base)
  next
    case BlockReadyChan
    with assms True show ?thesis
      by (cases "0 < blockWaitTime (ks (lw l))")
         (auto simp: listener_select_push listener_select_push_panic count_of_emit count_of_blockReadyCb base)
  next
    case TickerC
    with assms True show ?thesis by (auto simp: listener_select_tick count_of_emit count_of_blockReadyCb base)
  qed
qed

lemma no_cancel_quiet_ext: "quiet_ext w w' \<Longrightarrow> no_cancel w \<Longrightarrow> no_cancel w'"
  unfolding quiet_ext_def no_cancel_def by (elim conjE exE) fastforce

lemma listener_select_cancel:
  assumes "no_cancel (lw l)" and "listener_select ctx reg (c, t) l = (r, l2)"
  shows "if r = Some (Returned ())
         then cancelled_last ''context cancelled, stopping block update listener'' (lw l2)
         else no_cancel (lw l2)"
proof (cases "ready ctx reg l c t")
  case False
  with assms show ?thesis by (auto simp: listener_select_impossible)
next
  case True
  show ?thesis
  proof (cases c)
    case CtxDone
    with assms True show ?thesis
      by (auto simp: listener_select_done cancelled_last_def no_cancel_def emit_def)
  next
    case BlockReadyChan
    with assms True show ?thesis
      by (cases "0 < blockWaitTime (ks (lw l))")
         (auto simp: listener_select_push listener_select_push_panic no_cancel_def emit_def blockReadyCb_fields)
  next
    case TickerC
    with assms True show ?thesis
      by (auto simp: listener_select_tick no_cancel_def emit_def blockReadyCb_fields)
  qed
qed

lemma listener_loop_cancel:
  assumes "no_cancel (lw l)" and "listener_loop ctx reg sched l = (out, l')"
  shows "if out = Returned ()
         then cancelled_last ''context cancelled, stopping block update listener'' (lw l')
         else no_cancel (lw l')"
  using assms
proof (induction sched arbitrary: l)
  case Nil
  obtain r l1 where s: "listener_sync l = (r, l1)" by (cases "listener_sync l") auto
  have n1: "no_cancel (lw l1)"
    using listener_sync_quiet [OF s] Nil(1) no_cancel_quiet_ext by blast
  from s listener_sync_not_Returned [of l "()"] have "r \<noteq> Some (Returned ())" by simp
  with Nil(2) s n1 show ?case by (auto split: option.splits)
next
  case (Cons choice sched)
  obtain r l1 where s: "listener_sync l = (r, l1)" by (cases "listener_sync l") auto
  have n1: "no_cancel (lw l1)"
    using listener_sync_quiet [OF s] Cons(2) no_cancel_quiet_ext by blast
  from s listener_sync_not_Returned [of l "()"] have nr: "r \<noteq> Some (Returned ())" by simp
  show ?case
  proof (cases r)
    case (Some a)
    with Cons(3) s n1 nr show ?thesis by auto
  next
    case None
    obtain c t where ch: "choice = (c, t)" by (cases choice) auto
    obtain r2 l2 where sel: "listener_select ctx reg (c, t) l1 = (r2, l2)"
      by (cases "listener_select ctx reg (c, t) l1") auto
    note step = listener_select_cancel [OF n1 sel]
    show ?thesis
    proof (cases r2)
      case (Some a)
      with Cons(3) s None ch sel have "out = a" "l' = l2" by simp_all
      with step Some show ?thesis by simp
    next
      case None2: None
      with step have "no_cancel (lw l2)" by simp
      moreover from Cons(3) s None ch sel None2 have "listener_loop ctx reg sched l2 = (out, l')"
        by simp
      ultimately show ?thesis by (rule Cons.IH)
    qed
  qed
qed

lemma stats_tick_frame:
  assumes "stats_tick w = (r, w')"
  shows "ks w' = ks w \<and> now w' = now w \<and> r \<noteq> Some (Returned ()) \<and> r \<noteq> Some Impossible \<and>
         (\<exists>ys. trace w' = trace w @ ys \<and> (\<forall>e\<in>set ys. \<forall>c. snd e \<noteq> Recv c \<and> snd e \<noteq> BlockReadyCb))"
  using assms unfolding stats_tick_def Let_def emit_def
  by (auto split: option.splits list.splits sum.splits)

lemma stats_select_impossible:
  "\<not> ready ctx False l c t \<Longrightarrow> stats_select ctx (c, t) l = (Some Impossible, l)"
  by (simp add: stats_select_def)

lemma stats_select_done:
  "ready ctx False l CtxDone t \<Longrightarrow>
   stats_select ctx (CtxDone, t) l =
     (Some (Returned ()),
      l\<lparr>lw := emit (Log LWarn ''context cancelled, stopping stats thread'' None)
                (emit (Recv CtxDone) ((lw l)\<lparr>now := t\<rparr>))\<rparr>)"
  by (simp add: stats_select_def Let_def)

lemma stats_select_tick:
  "ready ctx False l TickerC t \<Longrightarrow>
   stats_select ctx (TickerC, t) l =
     (fst (stats_tick (emit (Recv TickerC) ((lw l)\<lparr>now := t\<rparr>))),
      l\<lparr>lw := snd (stats_tick (emit (Recv TickerC) ((lw l)\<lparr>now := t\<rparr>))),
        ticker := (fire_until t (ticker l))\<lparr>buffered := False\<rparr>\<rparr>)"
  by (simp add: stats_select_def Let_def receive_tick_def ready_def split: prod.splits)

lemma not_ready_unregistered: "\<not> ready ctx False l BlockReadyChan t"
  by (simp add: ready_def)

lemma stats_select_cancel:
  assumes "no_cancel (lw l)" and "stats_select ctx (c, t) l = (r, l2)"
  shows "if r = Some (Returned ())
         then cancelled_last ''context cancelled, stopping stats thread'' (lw l2)
         else no_cancel (lw l2)"
proof (cases "ready ctx False l c t")
  case False
  with assms show ?thesis by (auto simp: stats_select_impossible)
next
  case True
  show ?thesis
  proof (cases c)
    case CtxDone
    with assms True show ?thesis
      by (auto simp: stats_select_done cancelled_last_def no_cancel_def emit_def)
  next
    case BlockReadyChan
    with True not_ready_unregistered show ?thesis by blast
  next
    case TickerC
    let ?w = "emit (Recv TickerC) ((lw l)\<lparr>now := t\<rparr>)"
    obtain r1 w1 where st: "stats_tick ?w = (r1, w1)" by (cases "stats_tick ?w") auto
    from stats_tick_frame [OF st] obtain ys where
      ys: "trace w1 = trace ?w @ ys" "\<forall>e\<in>set ys. \<forall>c. snd e \<noteq> Recv c" and r1: "r1 \<noteq> Some (Returned ())"
      by blast
    have "no_cancel ?w" using assms(1) by (simp add: no_cancel_def emit_def)
    with ys have "no_cancel w1" by (fastforce simp: no_cancel_def)
    moreover have "r = r1" "lw l2 = w1"
      using assms(2) True TickerC st by (auto simp: stats_select_tick)
    ultimately show ?thesis using r1 by simp
  qed
qed

lemma stats_loop_cancel:
  assumes "no_cancel (lw l)" and "stats_loop ctx sched l = (out, l')"
  shows "if out = Returned ()
         then cancelled_last ''context cancelled, stopping stats thread'' (lw l')
         else no_cancel (lw l')"
  using assms
proof (induction sched arbitrary: l)
  case Nil
  then show ?case by auto
next
  case (Cons choice sched)
  obtain c t where ch: "choice = (c, t)" by (cases choice) auto
  obtain r2 l2 where sel: "stats_select ctx (c, t) l = (r2, l2)"
    by (cases "stats_select ctx (c, t) l") auto
  note step = stats_select_cancel [OF Cons(2) sel]
  show ?case
  proof (cases r2)
    case (Some a)
    with Cons(3) ch sel have "out = a" "l' = l2" by simp_all
    with step Some show ?thesis by simp
  next
    case None
    with step have "no_cancel (lw l2)" by simp
    moreover from Cons(3) ch sel None have "stats_loop ctx sched l2 = (out, l')" by simp
    ultimately show ?thesis by (rule Cons.IH)
  qed
qed

lemma startStatsThread_cancel:
  assumes "no_cancel w" and "startStatsThread ctx sched w = (out, l)"
  shows "if out = Returned ()
         then cancelled_last ''context cancelled, stopping stats thread'' (lw l)
         else no_cancel (lw l)"
  using assms stats_loop_cancel [of "\<lparr>lw = w, ticker = \<lparr>period = 30, next_fire = now w + 30, buffered = False\<rparr>\<rparr>" ctx sched out l]
  by (simp add: startStatsThread_def NewTicker_def)

lemma startBlockTemplateListener_cancel:
  assumes "no_cancel w" and "startBlockTemplateListener ctx sched w = (out, l)"
  shows "if out = Returned ()
         then cancelled_last ''context cancelled, stopping block update listener'' (lw l)
         else no_cancel (lw l)"
proof (cases "pyrind (ks w)")
  case None
  with assms show ?thesis by (auto simp: startBlockTemplateListener_def Let_def)
next
  case (Some c)
  show ?thesis
  proof (cases "registrations (env w)")
    case Nil
    with assms Some show ?thesis
      by (auto simp: startBlockTemplateListener_def Let_def no_cancel_def emit_def)
  next
    case (Cons r rs)
    define w1 where "w1 = (emit RegisterForNewBlockTemplateNotifications w)\<lparr>env := (env w)\<lparr>registrations := rs\<rparr>\<rparr>"
    define w2 where "w2 = (case r of
          Some err \<Rightarrow> emit (Log LError ''fatal: failed to register for block notifications from pyrin'' None) w1
        | None \<Rightarrow> w1)"
    have n2: "no_cancel w2"
      using assms(1) by (simp add: w2_def w1_def no_cancel_def emit_def split: option.splits)
    have eq: "startBlockTemplateListener ctx sched w =
        (case NewTicker (now w2) (blockWaitTime (ks w2)) of
           None \<Rightarrow> (Panicked, \<lparr>lw = w2, ticker = \<lparr>period = 0, next_fire = 0, buffered = False\<rparr>\<rparr>)
         | Some tk \<Rightarrow> listener_loop ctx (r = None) sched \<lparr>lw = w2, ticker = tk\<rparr>)"
      by (simp only: startBlockTemplateListener_def Some Cons w1_def w2_def Let_def
            option.case list.case)
    show ?thesis
    proof (cases "NewTicker (now w2) (blockWaitTime (ks w2))")
      case None
      with assms(2) eq n2 show ?thesis by auto
    next
      case (Some tk)
      with assms(2) eq have "listener_loop ctx (r = None) sched \<lparr>lw = w2, ticker = tk\<rparr> = (out, l)"
        by simp
      from listener_loop_cancel [OF _ this] n2 show ?thesis by simp
    qed
  qed
qed

lemma cancelled_last_index:
  assumes "cancelled_last msg w" and "i < length (trace w)" and "snd (trace w ! i) = Recv CtxDone"
  shows "Suc (Suc i) = length (trace w) \<and> snd (trace w ! Suc i) = Log LWarn msg None"
proof -
  from assms(1) obtain t pre where
    tr: "trace w = pre @ [(t, Recv CtxDone), (t, Log LWarn msg None)]"
    and pre: "Recv CtxDone \<notin> set (map snd pre)"
    by (auto simp: cancelled_last_def)
  have "\<not> i < length pre"
  proof
    assume "i < length pre"
    then have "snd (pre ! i) = Recv CtxDone" using assms(3) tr by (simp add: nth_append)
    with \<open>i < length pre\<close> pre show False by (metis length_map nth_map nth_mem)
  qed
  moreover have "i \<noteq> Suc (length pre)"
    using assms(3) tr by (auto simp: nth_append)
  ultimately have "i = length pre" using assms(2) tr by simp
  then show ?thesis using tr by (simp add: nth_append)
qed

lemma no_cancel_index:
  assumes "no_cancel w" and "i < length (trace w)"
  shows "snd (trace w ! i) \<noteq> Recv CtxDone"
  using assms unfolding no_cancel_def by (metis length_map nth_map nth_mem)

lemma cancelled_last_has: "cancelled_last msg w \<Longrightarrow> Recv CtxDone \<in> set (map snd (trace w))"
  by (auto simp: cancelled_last_def)

lemma ready_not_past_cancel:
  "ready (Some tc) reg l c t \<Longrightarrow> t \<le> max (now (lw l)) tc"
  by (auto simp: ready_def prompt_def)

lemma ready_cancel_alone:
  assumes "\<not> buffered (fire_until (max (now (lw l)) tc) (ticker l))"
  shows "ready (Some tc) reg l CtxDone (max (now (lw l)) tc)"
proof (cases "tc \<le> now (lw l)")
  case True
  then show ?thesis by (simp add: ready_def prompt_def max_def)
next
  case False
  then have m: "max (now (lw l)) tc = tc" by simp
  from assms have "\<not> next_fire (ticker l) \<le> tc" "\<not> buffered (ticker l)"
    unfolding m by (auto simp: fire_until_def split: if_splits)
  with False show ?thesis by (simp add: ready_def prompt_def m)
qed

lemma only_cancel_ready:
  assumes "\<not> buffered (fire_until (max (now (lw l)) tc) (ticker l))"
    and "ready (Some tc) reg l c t" and "tc \<le> t" and "c \<noteq> BlockReadyChan"
  shows "c = CtxDone"
proof (cases c)
  case TickerC
  from assms(2) have "now (lw l) \<le> t" by (simp add: ready_def)
  with ready_not_past_cancel [OF assms(2)] assms(3) have "t = max (now (lw l)) tc" by simp
  with assms(1,2) TickerC show ?thesis by (simp add: ready_def)
qed (use assms(4) in simp_all)

lemma listener_select_unregistered:
  assumes "listener_select ctx False (c, t) l = (r, l2)"
  shows "r \<noteq> Some Panicked \<and> ks (lw l2) = ks (lw l) \<and>
         count_of (Recv BlockReadyChan) (lw l2) = count_of (Recv BlockReadyChan) (lw l) \<and>
         count_of BlockReadyCb (lw l2) + count_of (Recv TickerC) (lw l) =
           count_of BlockReadyCb (lw l) + count_of (Recv TickerC) (lw l2)"
proof (cases "ready ctx False l c t")
  case False
  with assms show ?thesis by (auto simp: listener_select_impossible)
next
  case True
  have base: "count_of a ((lw l)\<lparr>now := t\<rparr>) = count_of a (lw l)" for a
    by (simp add: count_of_def)
  show ?thesis
  proof (cases c)
    case CtxDone
    with assms True show ?thesis
      by (auto simp: listener_select_done count_of_emit count_of_blockReadyCb base emit_fields blockReadyCb_fields)
  next
    case BlockReadyChan
    with True not_ready_unregistered show ?thesis by blast
  next
    case TickerC
    with assms True show ?thesis
      by (auto simp: listener_select_tick count_of_emit count_of_blockReadyCb base emit_fields blockReadyCb_fields)
  qed
qed

lemma listener_loop_unregistered:
  assumes "pyrind (ks (lw l)) \<noteq> None" and "listener_loop ctx False sched l = (out, l')"
  shows "out \<noteq> Panicked \<and>
         count_of (Recv BlockReadyChan) (lw l') = count_of (Recv BlockReadyChan) (lw l) \<and>
         count_of BlockReadyCb (lw l') + count_of (Recv TickerC) (lw l) =
           count_of BlockReadyCb (lw l) + count_of (Recv TickerC) (lw l')"
  using assms
proof (induction sched arbitrary: l)
  case Nil
  obtain r l1 where s: "listener_sync l = (r, l1)" by (cases "listener_sync l") auto
  note q = listener_sync_quiet [OF s]
  have c: "count_of (Recv BlockReadyChan) (lw l1) = count_of (Recv BlockReadyChan) (lw l)"
    "count_of BlockReadyCb (lw l1) = count_of BlockReadyCb (lw l)"
    "count_of (Recv TickerC) (lw l1) = count_of (Recv TickerC) (lw l)"
    using q by (simp_all add: quiet_ext_count)
  from listener_sync_no_panic [OF Nil(1)] s have "r \<noteq> Some Panicked" by simp
  with Nil(2) s c show ?case by (auto split: option.splits)
next
  case (Cons choice sched)
  obtain r l1 where s: "listener_sync l = (r, l1)" by (cases "listener_sync l") auto
  note q = listener_sync_quiet [OF s]
  have c: "count_of (Recv BlockReadyChan) (lw l1) = count_of (Recv BlockReadyChan) (lw l)"
    "count_of BlockReadyCb (lw l1) = count_of BlockReadyCb (lw l)"
    "count_of (Recv TickerC) (lw l1) = count_of (Recv TickerC) (lw l)"
    using q by (simp_all add: quiet_ext_count)
  have p1: "pyrind (ks (lw l1)) \<noteq> None" using q Cons(2) by (simp add: quiet_ext_def)
  from listener_sync_no_panic [OF Cons(2)] s have np: "r \<noteq> Some Panicked" by simp
  show ?case
  proof (cases r)
    case (Some a)
    with Cons(3) s c np show ?thesis by auto
  next
    case None
    obtain c' t where ch: "choice = (c', t)" by (cases choice) auto
    obtain r2 l2 where sel: "listener_select ctx False (c', t) l1 = (r2, l2)"
      by (cases "listener_select ctx False (c', t) l1") auto
    note step = listener_select_unregistered [OF sel]
    show ?thesis
    proof (cases r2)
      case (Some a)
      with Cons(3) s None ch sel have "out = a" "l' = l2" by simp_all
      with step Some c show ?thesis by auto
    next
      case None2: None
      from step p1 have p2: "pyrind (ks (lw l2)) \<noteq> None" by simp
      from Cons(3) s None ch sel None2 have "listener_loop ctx False sched l2 = (out, l')" by simp
      from Cons.IH [OF p2 this] step c show ?thesis by simp
    qed
  qed
qed

lemma listener_loop_trace_grows:
  "listener_loop ctx reg sched l = (out, l') \<Longrightarrow> \<exists>ys. trace (lw l') = trace (lw l) @ ys"
proof (induction sched arbitrary: l)
  case Nil
  obtain r l1 where s: "listener_sync l = (r, l1)" by (cases "listener_sync l") auto
  with Nil have "l' = l1" by (auto split: option.splits)
  with listener_sync_trace [OF s] show ?case by auto
next
  case (Cons choice sched)
  obtain r l1 where s: "listener_sync l = (r, l1)" by (cases "listener_sync l") auto
  from listener_sync_trace [OF s] obtain ys1 where ys1: "trace (lw l1) = trace (lw l) @ ys1" by blast
  show ?case
  proof (cases r)
    case (Some a)
    with Cons(2) s ys1 show ?thesis by auto
  next
    case None
    obtain c t where ch: "choice = (c, t)" by (cases choice) auto
    obtain r2 l2 where sel: "listener_select ctx reg (c, t) l1 = (r2, l2)"
      by (cases "listener_select ctx reg (c, t) l1") auto
    have "\<exists>ys2. trace (lw l2) = trace (lw l1) @ ys2"
    proof (cases r2)
      case (Some a)
      with listener_select_stop_trace [of ctx reg c t l1 a l2] sel show ?thesis by blast
    next
      case None2: None
      show ?thesis
      proof (cases "ready ctx reg l1 c t")
        case False
        with sel None2 show ?thesis by (simp add: listener_select_impossible)
      next
        case True
        with sel None2 show ?thesis
          by (cases c; cases "0 < blockWaitTime (ks (lw l1))")
             (auto simp: listener_select_done listener_select_push listener_select_push_panic
                listener_select_tick emit_def blockReadyCb_fields)
      qed
    qed
    then obtain ys2 where ys2: "trace (lw l2) = trace (lw l1) @ ys2" by blast
    show ?thesis
    proof (cases r2)
      case (Some a)
      with Cons(2) s None ch sel ys1 ys2 show ?thesis by auto
    next
      case None2: None
      with Cons(2) s None ch sel have "listener_loop ctx reg sched l2 = (out, l')" by simp
      from Cons.IH [OF this] ys1 ys2 show ?thesis by auto
    qed
  qed
qed

lemma stats_tick_dag_fails:
  "pyrind (ks w) \<noteq> None \<Longrightarrow> dags (env w) = Inl err # ds \<Longrightarrow>
   stats_tick w =
     (None,
      w\<lparr>trace := trace w @
           [(now w, GetBlockDAGInfo),
            (now w, Log LWarn ''failed to get network hashrate from pyrin, prom stats will be out of date''
                      (Some err))],
        env := (env w)\<lparr>dags := ds\<rparr>\<rparr>)"
  by (auto simp: stats_tick_def emit_def)

lemma stats_tick_hashrate_fails:
  "pyrind (ks w) \<noteq> None \<Longrightarrow> dags (env w) = Inr d # ds \<Longrightarrow> TipHashes d = tip # tips \<Longrightarrow>
   hashrates (env w) = Inl err # hs \<Longrightarrow>
   stats_tick w =
     (None,
      w\<lparr>trace := trace w @
           [(now w, GetBlockDAGInfo),
            (now w, EstimateNetworkHashesPerSecond tip 1000),
            (now w, Log LWarn ''failed to get network hashrate from pyrin, prom stats will be out of date''
                      (Some err))],
        env := (env w)\<lparr>dags := ds, hashrates := hs\<rparr>\<rparr>)"
  by (auto simp: stats_tick_def emit_def)

lemma stats_tick_sample:
  "pyrind (ks w) \<noteq> None \<Longrightarrow> dags (env w) = Inr d # ds \<Longrightarrow> TipHashes d = tip # tips \<Longrightarrow>
   hashrates (env w) = Inr hps # hs \<Longrightarrow>
   stats_tick w =
     (None,
      w\<lparr>trace := trace w @
           [(now w, GetBlockDAGInfo),
            (now w, EstimateNetworkHashesPerSecond tip 1000),
            (now w, RecordNetworkStats hps (BlockCount d) (Difficulty d))],
        env := (env w)\<lparr>dags := ds, hashrates := hs\<rparr>\<rparr>)"
  by (auto simp: stats_tick_def emit_def)

lemma stats_tick_sample_only:
  assumes "(t, RecordNetworkStats h b x) \<in> set (drop (length (trace w)) (trace (snd (stats_tick w))))"
  shows "\<exists>d ds tip tips hps hs.
           dags (env w) = Inr d # ds \<and> TipHashes d = tip # tips \<and> hashrates (env w) = Inr hps # hs"
  using assms unfolding stats_tick_def emit_def Let_def
  by (auto split: option.splits list.splits sum.splits)

lemma loop_state_all_updated: "(l :: loop_state)\<lparr>lw := a, ticker := b\<rparr> = \<lparr>lw = a, ticker = b\<rparr>"
  by (cases l) simp

lemma listener_select_ks: "listener_select ctx reg (c, t) l = (r, l2) \<Longrightarrow> ks (lw l2) = ks (lw l)"
  by (cases "ready ctx reg l c t"; cases c; cases "0 < blockWaitTime (ks (lw l))")
     (auto simp: listener_select_impossible listener_select_done listener_select_push
        listener_select_push_panic listener_select_tick emit_fields blockReadyCb_fields)

lemma stats_select_ks: "stats_select ctx (c, t) l = (r, l2) \<Longrightarrow> ks (lw l2) = ks (lw l)"
proof (cases "ready ctx False l c t")
  case False
  moreover assume "stats_select ctx (c, t) l = (r, l2)"
  ultimately show ?thesis by (auto simp: stats_select_impossible)
next
  case True
  assume a: "stats_select ctx (c, t) l = (r, l2)"
  show ?thesis
  proof (cases c)
    case CtxDone
    with a True show ?thesis by (auto simp: stats_select_done emit_fields)
  next
    case BlockReadyChan
    with True not_ready_unregistered show ?thesis by blast
  next
    case TickerC
    with a True have "lw l2 = snd (stats_tick (emit (Recv TickerC) ((lw l)\<lparr>now := t\<rparr>)))"
      by (auto simp: stats_select_tick)
    then show ?thesis
      using stats_tick_frame [of "emit (Recv TickerC) ((lw l)\<lparr>now := t\<rparr>)"
          "fst (stats_tick (emit (Recv TickerC) ((lw l)\<lparr>now := t\<rparr>)))"
          "snd (stats_tick (emit (Recv TickerC) ((lw l)\<lparr>now := t\<rparr>)))"]
      by (simp add: emit_fields)
  qed
qed

lemma listener_loop_connected:
  "listener_loop ctx reg sched l = (out, l') \<Longrightarrow> connected (ks (lw l')) = connected (ks (lw l))"
proof (induction sched arbitrary: l)
  case Nil
  obtain r l1 where s: "listener_sync l = (r, l1)" by (cases "listener_sync l") auto
  with Nil have "l' = l1" by (auto split: option.splits)
  with listener_sync_quiet [OF s] show ?case by (simp add: quiet_ext_def)
next
  case (Cons choice sched)
  obtain r l1 where s: "listener_sync l = (r, l1)" by (cases "listener_sync l") auto
  from listener_sync_quiet [OF s] have c1: "connected (ks (lw l1)) = connected (ks (lw l))"
    by (simp add: quiet_ext_def)
  show ?case
  proof (cases r)
    case (Some a)
    with Cons(2) s c1 show ?thesis by auto
  next
    case None
    obtain c t where ch: "choice = (c, t)" by (cases choice) auto
    obtain r2 l2 where sel: "listener_select ctx reg (c, t) l1 = (r2, l2)"
      by (cases "listener_select ctx reg (c, t) l1") auto
    from listener_select_ks [OF sel] c1 have c2: "connected (ks (lw l2)) = connected (ks (lw l))"
      by simp
    show ?thesis
    proof (cases r2)
      case (Some a)
      with Cons(2) s None ch sel c2 show ?thesis by auto
    next
      case None2: None
      with Cons(2) s None ch sel have "listener_loop ctx reg sched l2 = (out, l')" by simp
      from Cons.IH [OF this] c2 show ?thesis by simp
    qed
  qed
qed

lemma stats_loop_ks: "stats_loop ctx sched l = (out, l') \<Longrightarrow> ks (lw l') = ks (lw l)"
proof (induction sched arbitrary: l)
  case Nil
  then show ?case by simp
next
  case (Cons choice sched)
  obtain c t where ch: "choice = (c, t)" by (cases choice) auto
  obtain r2 l2 where sel: "stats_select ctx (c, t) l = (r2, l2)"
    by (cases "stats_select ctx (c, t) l") auto
  note k = stats_select_ks [OF sel]
  show ?case
  proof (cases r2)
    case (Some a)
    with Cons(2) ch sel k show ?thesis by auto
  next
    case None
    with Cons(2) ch sel have "stats_loop ctx sched l2 = (out, l')" by simp
    from Cons.IH [OF this] k show ?thesis by simp
  qed
qed

lemma Start_quiet_but_go:
  "connected (ks (snd (Start w))) = connected (ks w)"
proof -
  obtain r w1 where s: "waitForSync True w = (r, w1)" by (cases "waitForSync True w") auto
  from waitForSync_quiet [OF s] have "connected (ks w1) = connected (ks w)"
    by (simp add: quiet_ext_def)
  with s show ?thesis by (cases r) (simp_all add: Start_def emit_fields)
qed

lemma startBlockTemplateListener_connected:
  "connected (ks (lw (snd (startBlockTemplateListener ctx sched w)))) = connected (ks w)"
proof (cases "pyrind (ks w)")
  case None
  then show ?thesis by (simp add: startBlockTemplateListener_def Let_def)
next
  case (Some c)
  show ?thesis
  proof (cases "registrations (env w)")
    case Nil
    with Some show ?thesis by (simp add: startBlockTemplateListener_def Let_def emit_fields)
  next
    case (Cons r rs)
    define w1 where "w1 = (emit RegisterForNewBlockTemplateNotifications w)\<lparr>env := (env w)\<lparr>registrations := rs\<rparr>\<rparr>"
    define w2 where "w2 = (case r of
          Some err \<Rightarrow> emit (Log LError ''fatal: failed to register for block notifications from pyrin'' None) w1
        | None \<Rightarrow> w1)"
    have k2: "ks w2 = ks w"
      by (simp add: w2_def w1_def emit_fields split: option.splits)
    have eq: "startBlockTemplateListener ctx sched w =
        (case NewTicker (now w2) (blockWaitTime (ks w2)) of
           None \<Rightarrow> (Panicked, \<lparr>lw = w2, ticker = \<lparr>period = 0, next_fire = 0, buffered = False\<rparr>\<rparr>)
         | Some tk \<Rightarrow> listener_loop ctx (r = None) sched \<lparr>lw = w2, ticker = tk\<rparr>)"
      by (simp only: startBlockTemplateListener_def Some Cons w1_def w2_def Let_def
            option.case list.case)
    show ?thesis
    proof (cases "NewTicker (now w2) (blockWaitTime (ks w2))")
      case None
      with eq k2 show ?thesis by simp
    next
      case (Some tk)
      with eq have "listener_loop ctx (r = None) sched \<lparr>lw = w2, ticker = tk\<rparr> =
          (fst (startBlockTemplateListener ctx sched w), snd (startBlockTemplateListener ctx sched w))"
        by simp
      from listener_loop_connected [OF this] k2 show ?thesis by simp
    qed
  qed
qed

lemma startStatsThread_ks: "ks (lw (snd (startStatsThread ctx sched w))) = ks w"
  using stats_loop_ks [of ctx sched "\<lparr>lw = w, ticker = \<lparr>period = 30, next_fire = now w + 30, buffered = False\<rparr>\<rparr>"
      "fst (startStatsThread ctx sched w)" "snd (startStatsThread ctx sched w)"]
  by (simp add: startStatsThread_def NewTicker_def)

lemma GetBlockTemplate_ks: "ks (snd (GetBlockTemplate version client w)) = ks w"
  by (simp add: GetBlockTemplate_def Let_def emit_fields split: option.splits list.splits sum.splits)

lemma waitForSync_loop_count:
  "waitForSync_loop rs w = (r, rs', w') \<Longrightarrow>
   a \<noteq> GetInfo \<Longrightarrow> a \<noteq> Sleep 5 \<Longrightarrow>
   a \<noteq> Log LWarn ''Pyrin is not synced, waiting for sync before starting bridge'' None \<Longrightarrow>
   count_of a w' = count_of a w"
proof (induction rs w arbitrary: r rs' w' rule: waitForSync_loop.induct)
  case (1 w)
  then show ?case by (auto simp: count_of_emit)
next
  case (2 err rs w)
  then show ?case by (auto simp: count_of_emit)
next
  case (3 isSynced rs w)
  show ?case
  proof (cases isSynced)
    case True
    with 3 show ?thesis by (auto simp: count_of_emit)
  next
    case False
    let ?w1 = "sleep 5 (emit (Log LWarn ''Pyrin is not synced, waiting for sync before starting bridge'' None)
                 (emit GetInfo w))"
    from False 3 have "count_of a w' = count_of a ?w1" by simp
    moreover from 3(3-5) have "count_of a ?w1 = count_of a w"
      by (simp add: count_of_sleep count_of_emit)
    ultimately show ?thesis by simp
  qed
qed

lemma waitForSync_verbose_once:
  "count_of (Log LInfo ''checking pyrind sync state'' None) (snd (waitForSync True w)) =
   count_of (Log LInfo ''checking pyrind sync state'' None) w + 1"
proof -
  let ?a = "Log LInfo ''checking pyrind sync state'' None"
  let ?w1 = "emit ?a w"
  have c1: "count_of ?a ?w1 = count_of ?a w + 1" by (simp add: count_of_emit)
  show ?thesis
  proof (cases "pyrind (ks w)")
    case None
    then show ?thesis by (simp add: waitForSync_def emit_fields c1)
  next
    case (Some c)
    obtain r rs w2 where l: "waitForSync_loop (infos (env ?w1)) ?w1 = (r, rs, w2)"
      by (metis prod_cases3)
    from waitForSync_loop_count [OF l, of ?a] have c2: "count_of ?a w2 = count_of ?a ?w1" by simp
    have "snd (waitForSync True w) = w2\<lparr>env := (env w2)\<lparr>infos := rs\<rparr>\<rparr> \<or>
          snd (waitForSync True w) =
            emit (Log LInfo ''pyrind synced, starting server'' None) (w2\<lparr>env := (env w2)\<lparr>infos := rs\<rparr>\<rparr>)"
      using Some l by (auto simp: waitForSync_def Let_def emit_fields split: outcome.splits option.splits)
    then show ?thesis using c1 c2 by (auto simp: count_of_emit)
  qed
qed

section \<open>The claims\<close>

subsection \<open>C1: a push resets the fallback timer, a tick does not\<close>



subsection \<open>C2: an iteration whose sync check and reconnect both fail\<close>

text \<open>
  C2 as stated does not hold. The node is down: the sync check fails and the reconnect
  fails. The loop logs both, sleeps 5 seconds and goes on to the \<^verbatim>\<open>select\<close> of the
  same iteration, which receives the tick of second 30 and invokes the callback, although
  no reconnect has succeeded.
\<close>

theorem degraded_iteration_callback_counterexample:
  "startBlockTemplateListener None [(TickerC, 30)] world_node_down =
     (Blocked,
      \<lparr>lw = world_node_down
         \<lparr>now := 30,
          trace :=
            [(0, RegisterForNewBlockTemplateNotifications),
             (0, GetInfo),
             (0, Log LError ''error checking pyrind sync state, attempting reconnect: ''
                   (Some (Wrapped ''error fetching server info from pyrind @ 127.0.0.1:13110''
                            (RpcError ''connection refused'')))),
             (0, Reconnect),
             (0, Log LError ''error reconnecting to pyrind, waiting before retry: ''
                   (Some (RpcError ''connection refused''))),
             (0, Sleep 5),
             (30, Recv TickerC),
             (30, BlockReadyCb),
             (30, GetInfo)],
          env := env0\<rparr>,
       ticker = \<lparr>period = 30, next_fire = 60, buffered = False\<rparr>\<rparr>)"
  by (simp add: world_node_down_def example_worlds run_defs)

text \<open>
  C2, amended. In every iteration in which \<^verbatim>\<open>waitForSync\<close> fails and the reconnect
  fails too, the loop logs the second error and sleeps 5 units; up to there it has invoked
  no callback. It then goes on to the \<^verbatim>\<open>select\<close> of the same iteration, as a healthy
  iteration does: the callback is invoked once there if the \<^verbatim>\<open>select\<close> receives a push
  notification or a tick, and not at all if it receives the cancellation.
\<close>

theorem degraded_iteration_sleeps_then_selects:
  assumes "waitForSync False (lw l) = (Returned (Some e1), w1)"
      and "reconnect (emit (Log LError ''error checking pyrind sync state, attempting reconnect: ''
                              (Some e1)) w1) = (Returned (Some e2), w2)"
  shows "\<exists>l1. listener_sync l = (None, l1) \<and>
           lw l1 = sleep 5 (emit (Log LError ''error reconnecting to pyrind, waiting before retry: ''
                                    (Some e2)) w2) \<and>
           now (lw l1) = now w2 + 5 \<and>
           count_of BlockReadyCb (lw l1) = count_of BlockReadyCb (lw l) \<and>
           listener_loop ctx reg ((c, t) # sched) l =
             (case listener_select ctx reg (c, t) l1 of
                (Some r, l2) \<Rightarrow> (r, l2)
              | (None, l2) \<Rightarrow> listener_loop ctx reg sched l2) \<and>
           count_of BlockReadyCb (lw (snd (listener_select ctx reg (c, t) l1))) =
             count_of BlockReadyCb (lw l) + (if ready ctx reg l1 c t \<and> c \<noteq> CtxDone then 1 else 0)"
proof -
  let ?l1 = "l\<lparr>lw := sleep 5 (emit (Log LError ''error reconnecting to pyrind, waiting before retry: ''
                                    (Some e2)) w2)\<rparr>"
  have s: "listener_sync l = (None, ?l1)"
    using assms by (simp add: listener_sync_def)
  from listener_sync_quiet [OF s] have "count_of BlockReadyCb (lw ?l1) = count_of BlockReadyCb (lw l)"
    using quiet_ext_count [of "lw l" "lw ?l1" BlockReadyCb] by simp
  moreover have "count_of BlockReadyCb (lw (snd (listener_select ctx reg (c, t) ?l1))) =
      count_of BlockReadyCb (lw ?l1) + (if ready ctx reg ?l1 c t \<and> c \<noteq> CtxDone then 1 else 0)"
    using listener_select_callbacks [of ctx reg c t ?l1] by (metis prod.collapse)
  moreover have "now (lw ?l1) = now w2 + 5" by (simp add: sleep_fields emit_fields)
  ultimately show ?thesis using s by (intro exI [of _ ?l1]) simp
qed

text \<open>
  The node is down and the loop starts at second 0 with an interval of 30: the sync check and
  the reconnect fail, the loop is at second 5 after its sleep with no callback made, and
  the tick received at second 30 brings the one callback.
\<close>

theorem degraded_iteration_sleeps_then_selects_witness:
  "fst (waitForSync False (lw node_down_feed)) =
     Returned (Some (Wrapped ''error fetching server info from pyrind @ 127.0.0.1:13110''
                       (RpcError ''connection refused''))) \<and>
   fst (reconnect (emit (Log LError ''error checking pyrind sync state, attempting reconnect: ''
                     (Some (Wrapped ''error fetching server info from pyrind @ 127.0.0.1:13110''
                              (RpcError ''connection refused''))))
                    (snd (waitForSync False (lw node_down_feed))))) =
     Returned (Some (RpcError ''connection refused'')) \<and>
   fst (listener_sync node_down_feed) = None \<and>
   now (lw (snd (listener_sync node_down_feed))) = 5 \<and>
   count_of BlockReadyCb (lw (snd (listener_sync node_down_feed))) = 0 \<and>
   ready None True (snd (listener_sync node_down_feed)) TickerC 30 \<and>
   count_of BlockReadyCb
     (lw (snd (listener_select None True (TickerC, 30) (snd (listener_sync node_down_feed))))) = 1"
proof -
  let ?E = "Wrapped ''error fetching server info from pyrind @ 127.0.0.1:13110''
              (RpcError ''connection refused'')"
  let ?w1 = "snd (waitForSync False (lw node_down_feed))"
  let ?L = "emit (Log LError ''error checking pyrind sync state, attempting reconnect: '' (Some ?E)) ?w1"
  have f1: "fst (waitForSync False (lw node_down_feed)) = Returned (Some ?E)"
    by (simp add: node_down_feed_def world_node_down_def example_worlds waitForSync_def emit_def)
  then have h1: "waitForSync False (lw node_down_feed) = (Returned (Some ?E), ?w1)"
    by (metis prod.collapse)
  have f2: "fst (reconnect ?L) = Returned (Some (RpcError ''connection refused''))"
    by (simp add: node_down_feed_def world_node_down_def example_worlds waitForSync_def
          reconnect_def emit_def)
  then have h2: "reconnect ?L = (Returned (Some (RpcError ''connection refused'')), snd (reconnect ?L))"
    by (metis prod.collapse)
  from degraded_iteration_sleeps_then_selects [OF h1 h2, of None True TickerC 30 "[]"]
  obtain l1 where l1: "listener_sync node_down_feed = (None, l1)"
    "now (lw l1) = now (snd (reconnect ?L)) + 5"
    "count_of BlockReadyCb (lw l1) = count_of BlockReadyCb (lw node_down_feed)"
    "count_of BlockReadyCb (lw (snd (listener_select None True (TickerC, 30) l1))) =
       count_of BlockReadyCb (lw node_down_feed) + (if ready None True l1 TickerC 30 \<and> TickerC \<noteq> CtxDone then 1 else 0)"
    by blast
  have c0: "count_of BlockReadyCb (lw node_down_feed) = 0"
    by (simp add: node_down_feed_def world_node_down_def example_worlds count_of_def)
  have n0: "now (snd (reconnect ?L)) = 0"
    by (simp add: node_down_feed_def world_node_down_def example_worlds waitForSync_def
          reconnect_def emit_def)
  have rd: "ready None True (snd (listener_sync node_down_feed)) TickerC 30"
    by (simp add: node_down_feed_def world_node_down_def example_worlds run_defs)
  from l1 c0 n0 rd f1 f2 show ?thesis by simp
qed

subsection \<open>C3: \<^verbatim>\<open>Start\<close>\<close>

text \<open>
  C3 as stated does not hold. With a node that cannot be reached, \<^verbatim>\<open>waitForSync\<close>
  returns the error, and \<^verbatim>\<open>Start\<close> drops it: it launches both goroutines and returns, as
  it does for a synced node. \<^verbatim>\<open>Start\<close> has no result in which an error could be handed
  to its caller.
\<close>

theorem Start_unreachable_node_counterexample:
  "fst (waitForSync True world_unreachable) =
     Returned (Some (Wrapped ''error fetching server info from pyrind @ 127.0.0.1:13110''
                       (RpcError ''connection refused''))) \<and>
   Start world_unreachable =
     (Returned (),
      world_unreachable
        \<lparr>trace := [(0, Log LInfo ''checking pyrind sync state'' None), (0, GetInfo),
                   (0, Go BlockTemplateListener), (0, Go StatsThread)],
         env := env0\<rparr>) \<and>
   fst (Start world_unreachable) = fst (Start world_synced)"
  by (simp add: Start_def waitForSync_def world_unreachable_def world_synced_def example_worlds emit_def)

text \<open>
  C3, amended. \<^verbatim>\<open>Start\<close> makes one verbose \<^verbatim>\<open>waitForSync\<close> call first. When that call
  returns, with success or with an error, \<^verbatim>\<open>Start\<close> launches the block template
  listener and the stats thread, in this order, and returns; nothing is launched before the
  call has returned. While the call does not return, \<^verbatim>\<open>Start\<close> does not return either
  and launches nothing.
\<close>

theorem Start_checks_sync_then_launches:
  "count_of (Log LInfo ''checking pyrind sync state'' None) (snd (Start w)) =
     count_of (Log LInfo ''checking pyrind sync state'' None) w + 1 \<and>
   (\<forall>r w1. waitForSync True w = (Returned r, w1) \<longrightarrow>
      Start w =
        (Returned (),
         w1\<lparr>trace := trace w1 @ [(now w1, Go BlockTemplateListener), (now w1, Go StatsThread)]\<rparr>) \<and>
      (\<exists>ys. trace w1 = trace w @ ys \<and> Go BlockTemplateListener \<notin> set (map snd ys) \<and>
             Go StatsThread \<notin> set (map snd ys))) \<and>
   ((\<forall>r. fst (waitForSync True w) \<noteq> Returned r) \<longrightarrow>
      fst (Start w) \<noteq> Returned () \<and> snd (Start w) = snd (waitForSync True w))"
proof (intro conjI allI impI)
  let ?a = "Log LInfo ''checking pyrind sync state'' None"
  obtain r w1 where s: "waitForSync True w = (r, w1)" by (cases "waitForSync True w") auto
  have "count_of ?a (snd (Start w)) = count_of ?a w1"
    using s by (cases r) (simp_all add: Start_def count_of_emit)
  with waitForSync_verbose_once [of w] s show "count_of ?a (snd (Start w)) = count_of ?a w + 1"
    by simp
next
  fix r w1
  assume s: "waitForSync True w = (Returned r, w1)"
  then show "Start w =
        (Returned (),
         w1\<lparr>trace := trace w1 @ [(now w1, Go BlockTemplateListener), (now w1, Go StatsThread)]\<rparr>)"
    by (simp add: Start_def emit_def)
  from waitForSync_quiet [OF s] obtain ys where
    ys: "trace w1 = trace w @ ys" "\<forall>e\<in>set ys. quiet (snd e)"
    by (auto simp: quiet_ext_def)
  from ys(2) have "Go BlockTemplateListener \<notin> set (map snd ys) \<and> Go StatsThread \<notin> set (map snd ys)"
    by fastforce
  with ys(1) show "\<exists>ys. trace w1 = trace w @ ys \<and> Go BlockTemplateListener \<notin> set (map snd ys) \<and>
             Go StatsThread \<notin> set (map snd ys)"
    by blast
next
  assume n: "\<forall>r. fst (waitForSync True w) \<noteq> Returned r"
  obtain r w1 where s: "waitForSync True w = (r, w1)" by (cases "waitForSync True w") auto
  with n show "fst (Start w) \<noteq> Returned ()" by (cases r) (simp_all add: Start_def)
  from s n show "snd (Start w) = snd (waitForSync True w)" by (cases r) (simp_all add: Start_def)
qed

text \<open>
  An unreachable node and a synced node: both goroutines are launched after the sync check in
  both cases. A node that never answers: \<^verbatim>\<open>Start\<close> does not return.
\<close>

theorem Start_checks_sync_then_launches_witness:
  "waitForSync True world_unreachable =
     (Returned (Some (Wrapped ''error fetching server info from pyrind @ 127.0.0.1:13110''
                        (RpcError ''connection refused''))),
      world_unreachable
        \<lparr>trace := [(0, Log LInfo ''checking pyrind sync state'' None), (0, GetInfo)], env := env0\<rparr>) \<and>
   Start world_unreachable =
     (Returned (),
      world_unreachable
        \<lparr>trace := [(0, Log LInfo ''checking pyrind sync state'' None), (0, GetInfo),
                   (0, Go BlockTemplateListener), (0, Go StatsThread)],
         env := env0\<rparr>) \<and>
   waitForSync True world_synced =
     (Returned None,
      world_synced
        \<lparr>trace := [(0, Log LInfo ''checking pyrind sync state'' None), (0, GetInfo),
                   (0, Log LInfo ''pyrind synced, starting server'' None)], env := env0\<rparr>) \<and>
   Start world_synced =
     (Returned (),
      world_synced
        \<lparr>trace := [(0, Log LInfo ''checking pyrind sync state'' None), (0, GetInfo),
                   (0, Log LInfo ''pyrind synced, starting server'' None),
                   (0, Go BlockTemplateListener), (0, Go StatsThread)],
         env := env0\<rparr>) \<and>
   (\<forall>r. fst (waitForSync True world0) \<noteq> Returned r) \<and>
   fst (Start world0) = Blocked"
proof -
  have u: "waitForSync True world_unreachable =
     (Returned (Some (Wrapped ''error fetching server info from pyrind @ 127.0.0.1:13110''
                        (RpcError ''connection refused''))),
      world_unreachable
        \<lparr>trace := [(0, Log LInfo ''checking pyrind sync state'' None), (0, GetInfo)], env := env0\<rparr>)"
    by (simp add: waitForSync_def world_unreachable_def world_synced_def example_worlds emit_def)
  have s: "waitForSync True world_synced =
     (Returned None,
      world_synced
        \<lparr>trace := [(0, Log LInfo ''checking pyrind sync state'' None), (0, GetInfo),
                   (0, Log LInfo ''pyrind synced, starting server'' None)], env := env0\<rparr>)"
    by (simp add: waitForSync_def world_unreachable_def world_synced_def example_worlds emit_def)
  have b: "fst (waitForSync True world0) = Blocked"
    by (simp add: waitForSync_def world_unreachable_def world_synced_def example_worlds emit_def)
  then have nb: "\<forall>r. fst (waitForSync True world0) \<noteq> Returned r" by simp
  have f: "now world_unreachable = 0" "now world_synced = 0"
    by (simp_all add: world_unreachable_def world_synced_def example_worlds)
  from Start_checks_sync_then_launches [of world_unreachable] u
  have 1: "Start world_unreachable =
     (Returned (),
      world_unreachable
        \<lparr>trace := [(0, Log LInfo ''checking pyrind sync state'' None), (0, GetInfo),
                   (0, Go BlockTemplateListener), (0, Go StatsThread)],
         env := env0\<rparr>)"
    by (simp add: f)
  from Start_checks_sync_then_launches [of world_synced] s
  have 2: "Start world_synced =
     (Returned (),
      world_synced
        \<lparr>trace := [(0, Log LInfo ''checking pyrind sync state'' None), (0, GetInfo),
                   (0, Log LInfo ''pyrind synced, starting server'' None),
                   (0, Go BlockTemplateListener), (0, Go StatsThread)],
         env := env0\<rparr>)"
    by (simp add: f)
  from Start_checks_sync_then_launches [of world0] nb b
  have 3: "fst (Start world0) = Blocked"
    by (simp add: Start_def split: prod.splits outcome.splits)
  from u s nb 1 2 3 show ?thesis by simp
qed

subsection \<open>C4: \<^verbatim>\<open>waitForSync\<close> reports a failed query and absorbs an unsynced node\<close>

text \<open>
  C4 (for a manager with a client). \<^verbatim>\<open>waitForSync\<close> queries the node in a loop. A
  query that fails ends the call at
  once with that error, wrapped, and no further query is made: after \<open>n\<close> not-synced
  answers and one failure, \<open>n + 1\<close> queries have been made and the answers after the
  failure are untouched. An answer that reports not-synced makes the loop sleep 5 units
  and ask again: after \<open>n\<close> such answers and one synced answer the call returns success,
  \<open>5 * n\<close> units later, having slept \<open>n\<close> times. A not-synced answer never becomes an
  error: when no query of the call fails, the call does not return an error.
\<close>

theorem waitForSync_error_only_from_failed_query:
  assumes "pyrind (ks w) \<noteq> None"
  shows "(infos (env w) = replicate n (Inr False) @ Inl err # rest \<longrightarrow>
            fst (waitForSync v w) =
              Returned (Some (Wrapped (''error fetching server info from pyrind @ '' @ address (ks w)) err)) \<and>
            infos (env (snd (waitForSync v w))) = rest \<and>
            count_of GetInfo (snd (waitForSync v w)) = count_of GetInfo w + n + 1) \<and>
         (infos (env w) = replicate n (Inr False) @ Inr True # rest \<longrightarrow>
            fst (waitForSync v w) = Returned None \<and>
            infos (env (snd (waitForSync v w))) = rest \<and>
            now (snd (waitForSync v w)) = now w + 5 * int n \<and>
            count_of (Sleep 5) (snd (waitForSync v w)) = count_of (Sleep 5) w + n) \<and>
         ((\<forall>e. Inl e \<notin> set (infos (env w))) \<longrightarrow> (\<forall>e. fst (waitForSync v w) \<noteq> Returned (Some e)))"
proof (intro conjI impI allI)
  assume a: "infos (env w) = replicate n (Inr False) @ Inl err # rest"
  note eq = waitForSync_query_fails [OF assms a, of v]
  show "fst (waitForSync v w) =
          Returned (Some (Wrapped (''error fetching server info from pyrind @ '' @ address (ks w)) err))"
    by (simp add: eq)
  show "infos (env (snd (waitForSync v w))) = rest" by (simp add: eq)
  show "count_of GetInfo (snd (waitForSync v w)) = count_of GetInfo w + n + 1"
    by (simp add: eq count_of_emit unsynced_rounds verbose_start_simps)
next
  assume a: "infos (env w) = replicate n (Inr False) @ Inr True # rest"
  from waitForSync_synced [OF assms a, of v] obtain w' where
    w': "waitForSync v w = (Returned None, w')" "infos (env w') = rest" "now w' = now w + 5 * int n"
      "count_of (Sleep 5) w' = count_of (Sleep 5) w + n" by blast
  show "fst (waitForSync v w) = Returned None" by (simp add: w')
  show "infos (env (snd (waitForSync v w))) = rest" by (simp add: w')
  show "now (snd (waitForSync v w)) = now w + 5 * int n" by (simp add: w')
  show "count_of (Sleep 5) (snd (waitForSync v w)) = count_of (Sleep 5) w + n" by (simp add: w')
next
  fix e
  assume a: "\<forall>e. Inl e \<notin> set (infos (env w))"
  show "fst (waitForSync v w) \<noteq> Returned (Some e)"
  proof
    assume "fst (waitForSync v w) = Returned (Some e)"
    then have "waitForSync v w = (Returned (Some e), snd (waitForSync v w))"
      by (metis prod.collapse)
    from waitForSync_error_source [OF this] a show False by blast
  qed
qed

text \<open>
  One not-synced answer and then a failure: the error after two queries, the third answer
  untouched. Two not-synced answers and then a synced one: success at second 10 after two
  sleeps.
\<close>

theorem waitForSync_error_only_from_failed_query_witness:
  "pyrind (ks world_unsynced_then_fails) \<noteq> None \<and>
   infos (env world_unsynced_then_fails) =
     replicate 1 (Inr False) @ Inl (RpcError ''connection refused'') # [Inr True] \<and>
   fst (waitForSync False world_unsynced_then_fails) =
     Returned (Some (Wrapped ''error fetching server info from pyrind @ 127.0.0.1:13110''
                       (RpcError ''connection refused''))) \<and>
   infos (env (snd (waitForSync False world_unsynced_then_fails))) = [Inr True] \<and>
   count_of GetInfo (snd (waitForSync False world_unsynced_then_fails)) = 2 \<and>
   pyrind (ks world_unsynced_twice) \<noteq> None \<and>
   infos (env world_unsynced_twice) = replicate 2 (Inr False) @ Inr True # [] \<and>
   (\<forall>e. Inl e \<notin> set (infos (env world_unsynced_twice))) \<and>
   fst (waitForSync False world_unsynced_twice) = Returned None \<and>
   now (snd (waitForSync False world_unsynced_twice)) = 10 \<and>
   count_of (Sleep 5) (snd (waitForSync False world_unsynced_twice)) = 2"
proof -
  have p1: "pyrind (ks world_unsynced_then_fails) \<noteq> None"
    and p2: "pyrind (ks world_unsynced_twice) \<noteq> None"
    by (simp_all add: world_unsynced_then_fails_def world_unsynced_twice_def example_worlds)
  have i1: "infos (env world_unsynced_then_fails) =
              replicate 1 (Inr False) @ Inl (RpcError ''connection refused'') # [Inr True]"
    and i2: "infos (env world_unsynced_twice) = replicate 2 (Inr False) @ Inr True # []"
    by (simp_all add: world_unsynced_then_fails_def world_unsynced_twice_def example_worlds
          numeral_2_eq_2)
  have c: "count_of GetInfo world_unsynced_then_fails = 0" "now world_unsynced_twice = 0"
    "count_of (Sleep 5) world_unsynced_twice = 0" "address (ks world_unsynced_then_fails) = ''127.0.0.1:13110''"
    by (simp_all add: world_unsynced_then_fails_def world_unsynced_twice_def example_worlds
          count_of_def)
  have n: "\<forall>e. Inl e \<notin> set (infos (env world_unsynced_twice))"
    by (simp add: world_unsynced_twice_def example_worlds)
  show ?thesis
    using waitForSync_error_only_from_failed_query [OF p1, of 1 "RpcError ''connection refused''" "[Inr True]" False]
      waitForSync_error_only_from_failed_query [OF p2, of 2 "RpcError []" "[]" False]
      p1 p2 i1 i2 n
    by (simp add: c)
qed

subsection \<open>C5: two failures and a success\<close>

text \<open>
  C5 as stated does not hold. When \<^verbatim>\<open>GetInfo\<close> fails twice and would then succeed,
  \<^verbatim>\<open>waitForSync\<close> returns the first failure after one query: the second and third
  answers are never asked for, and it has not slept.
\<close>

theorem waitForSync_fails_twice_counterexample:
  "fst (waitForSync False world_fails_twice) =
     Returned (Some (Wrapped ''error fetching server info from pyrind @ 127.0.0.1:13110''
                       (RpcError ''connection refused''))) \<and>
   infos (env (snd (waitForSync False world_fails_twice))) = [Inl (RpcError ''connection refused''), Inr True] \<and>
   count_of GetInfo (snd (waitForSync False world_fails_twice)) = 1 \<and>
   count_of (Sleep 5) (snd (waitForSync False world_fails_twice)) = 0"
  by (simp add: waitForSync_def world_fails_twice_def example_worlds emit_def count_of_def)

text \<open>
  C5, amended (for a manager with a client). When \<^verbatim>\<open>GetInfo\<close> reports not-synced twice and then synced,
  \<^verbatim>\<open>waitForSync\<close> returns success after the third query, having slept 5 units twice.
\<close>

theorem waitForSync_unsynced_twice_then_synced:
  assumes "pyrind (ks w) \<noteq> None" and "infos (env w) = Inr False # Inr False # Inr True # rest"
  shows "fst (waitForSync v w) = Returned None \<and>
         infos (env (snd (waitForSync v w))) = rest \<and>
         count_of GetInfo (snd (waitForSync v w)) = count_of GetInfo w + 3 \<and>
         count_of (Sleep 5) (snd (waitForSync v w)) = count_of (Sleep 5) w + 2 \<and>
         now (snd (waitForSync v w)) = now w + 10"
proof -
  have "infos (env w) = replicate 2 (Inr False) @ Inr True # rest"
    by (simp add: assms(2) numeral_2_eq_2)
  from waitForSync_synced [OF assms(1) this, of v] show ?thesis by auto
qed

text \<open>
  Two not-synced answers and a synced one, from second 0.
\<close>

theorem waitForSync_unsynced_twice_then_synced_witness:
  "pyrind (ks world_unsynced_twice) \<noteq> None \<and>
   infos (env world_unsynced_twice) = Inr False # Inr False # Inr True # [] \<and>
   fst (waitForSync False world_unsynced_twice) = Returned None \<and>
   infos (env (snd (waitForSync False world_unsynced_twice))) = [] \<and>
   count_of GetInfo (snd (waitForSync False world_unsynced_twice)) = 3 \<and>
   count_of (Sleep 5) (snd (waitForSync False world_unsynced_twice)) = 2 \<and>
   now (snd (waitForSync False world_unsynced_twice)) = 10"
proof -
  have p: "pyrind (ks world_unsynced_twice) \<noteq> None"
    and i: "infos (env world_unsynced_twice) = Inr False # Inr False # Inr True # []"
    by (simp_all add: world_unsynced_twice_def example_worlds)
  have c: "count_of GetInfo world_unsynced_twice = 0" "now world_unsynced_twice = 0"
    "count_of (Sleep 5) world_unsynced_twice = 0"
    by (simp_all add: world_unsynced_twice_def example_worlds count_of_def)
  show ?thesis
    using waitForSync_unsynced_twice_then_synced [OF p i, of False] p i by (simp add: c)
qed

subsection \<open>C6: cancellation\<close>

text \<open>
  C6 as stated does not hold. The context is cancelled at second 10, while the first sync
  check is still sleeping. When the loop reaches its \<^verbatim>\<open>select\<close> at second 35, the
  cancellation and the tick of second 30 are both ready. Go receives from either; when it
  receives the tick, the callback is invoked, 25 seconds after the cancellation, and the
  loop only returns at its next \<^verbatim>\<open>select\<close>.
\<close>

theorem callback_after_cancellation_counterexample:
  "startBlockTemplateListener (Some 10) [(TickerC, 35), (CtxDone, 35)] world_slow_sync =
     listener_loop (Some 10) True [(TickerC, 35), (CtxDone, 35)] slow_feed \<and>
   now (lw (snd (listener_sync slow_feed))) = 35 \<and>
   ready (Some 10) True (snd (listener_sync slow_feed)) CtxDone 35 \<and>
   ready (Some 10) True (snd (listener_sync slow_feed)) TickerC 35 \<and>
   fst (startBlockTemplateListener (Some 10) [(TickerC, 35), (CtxDone, 35)] world_slow_sync) = Returned () \<and>
   feed_events (lw (snd (startBlockTemplateListener (Some 10) [(TickerC, 35), (CtxDone, 35)] world_slow_sync))) =
     [(35, Recv TickerC), (35, BlockReadyCb), (35, Recv CtxDone)]"
  by (simp add: world_slow_sync_def slow_feed_def example_worlds run_defs feed_events_def eval_nat_numeral)

text \<open>
  C6, amended (for a goroutine started on a trace that holds no receipt of the
  cancellation yet). Once the cancellation has fired, at time \<open>tc\<close>, a loop at its
  \<^verbatim>\<open>select\<close> waits no longer: the \<^verbatim>\<open>select\<close> completes at \<open>tc\<close>, or at the moment
  the loop reaches it if that is later. If no tick is waiting at that moment and no push
  notification is received, the cancellation is the only case that can be received and it
  is received: the loop returns with no further callback and no further sample. Once the
  \<^verbatim>\<open>select\<close> of a loop (block template listener or stats thread) has received the
  cancellation, the loop writes its log line and returns: the receipt is the last entry of
  its trace but for that line. A loop returns in no other way.
\<close>

theorem cancellation_received_ends_loop:
  fixes ctx :: "int option" and sched :: "(select_case \<times> int) list" and w :: world
    and l :: loop_state and tc :: int and reg :: bool
  assumes "Recv CtxDone \<notin> set (map snd (trace w))"
  defines "feed \<equiv> startBlockTemplateListener ctx sched w"
      and "stats \<equiv> startStatsThread ctx sched w"
      and "T \<equiv> max (now (lw l)) tc"
  shows "(\<forall>i. i < length (trace (lw (snd feed))) \<and> snd (trace (lw (snd feed)) ! i) = Recv CtxDone \<longrightarrow>
            fst feed = Returned () \<and> Suc (Suc i) = length (trace (lw (snd feed))) \<and>
            snd (trace (lw (snd feed)) ! Suc i) =
              Log LWarn ''context cancelled, stopping block update listener'' None) \<and>
         (fst feed = Returned () \<longrightarrow> Recv CtxDone \<in> set (map snd (trace (lw (snd feed))))) \<and>
         (\<forall>i. i < length (trace (lw (snd stats))) \<and> snd (trace (lw (snd stats)) ! i) = Recv CtxDone \<longrightarrow>
            fst stats = Returned () \<and> Suc (Suc i) = length (trace (lw (snd stats))) \<and>
            snd (trace (lw (snd stats)) ! Suc i) =
              Log LWarn ''context cancelled, stopping stats thread'' None) \<and>
         (fst stats = Returned () \<longrightarrow> Recv CtxDone \<in> set (map snd (trace (lw (snd stats))))) \<and>
         (\<forall>c t. ready (Some tc) reg l c t \<longrightarrow> t \<le> T) \<and>
         (\<not> buffered (fire_until T (ticker l)) \<longrightarrow>
            (\<forall>c t. ready (Some tc) reg l c t \<and> tc \<le> t \<and> c \<noteq> BlockReadyChan \<longrightarrow> c = CtxDone) \<and>
            ready (Some tc) reg l CtxDone T \<and>
            fst (listener_select (Some tc) reg (CtxDone, T) l) = Some (Returned ()) \<and>
            count_of BlockReadyCb (lw (snd (listener_select (Some tc) reg (CtxDone, T) l))) =
              count_of BlockReadyCb (lw l) \<and>
            fst (stats_select (Some tc) (CtxDone, T) l) = Some (Returned ()) \<and>
            (\<forall>h b x. count_of (RecordNetworkStats h b x) (lw (snd (stats_select (Some tc) (CtxDone, T) l))) =
               count_of (RecordNetworkStats h b x) (lw l)))"
proof -
  have nc: "no_cancel w" using assms(1) by (simp add: no_cancel_def)
  have f: "if fst feed = Returned ()
           then cancelled_last ''context cancelled, stopping block update listener'' (lw (snd feed))
           else no_cancel (lw (snd feed))"
    using startBlockTemplateListener_cancel [OF nc, of ctx sched "fst feed" "snd feed"]
    by (simp add: feed_def)
  have s: "if fst stats = Returned ()
           then cancelled_last ''context cancelled, stopping stats thread'' (lw (snd stats))
           else no_cancel (lw (snd stats))"
    using startStatsThread_cancel [OF nc, of ctx sched "fst stats" "snd stats"]
    by (simp add: stats_def)
  have A: "fst feed = Returned () \<and> Suc (Suc i) = length (trace (lw (snd feed))) \<and>
           snd (trace (lw (snd feed)) ! Suc i) =
             Log LWarn ''context cancelled, stopping block update listener'' None"
    if "i < length (trace (lw (snd feed)))" "snd (trace (lw (snd feed)) ! i) = Recv CtxDone" for i
  proof (cases "fst feed = Returned ()")
    case True
    with f cancelled_last_index that show ?thesis by auto
  next
    case False
    with f no_cancel_index that show ?thesis by auto
  qed
  have B: "fst stats = Returned () \<and> Suc (Suc i) = length (trace (lw (snd stats))) \<and>
           snd (trace (lw (snd stats)) ! Suc i) =
             Log LWarn ''context cancelled, stopping stats thread'' None"
    if "i < length (trace (lw (snd stats)))" "snd (trace (lw (snd stats)) ! i) = Recv CtxDone" for i
  proof (cases "fst stats = Returned ()")
    case True
    with s cancelled_last_index that show ?thesis by auto
  next
    case False
    with s no_cancel_index that show ?thesis by auto
  qed
  have C: "fst feed = Returned () \<Longrightarrow> Recv CtxDone \<in> set (map snd (trace (lw (snd feed))))"
    using f cancelled_last_has by auto
  have D: "fst stats = Returned () \<Longrightarrow> Recv CtxDone \<in> set (map snd (trace (lw (snd stats))))"
    using s cancelled_last_has by auto
  have E: "ready (Some tc) reg l c t \<Longrightarrow> t \<le> T" for c t
    unfolding T_def by (rule ready_not_past_cancel)
  have F: "(\<forall>c t. ready (Some tc) reg l c t \<and> tc \<le> t \<and> c \<noteq> BlockReadyChan \<longrightarrow> c = CtxDone) \<and>
            ready (Some tc) reg l CtxDone T \<and>
            fst (listener_select (Some tc) reg (CtxDone, T) l) = Some (Returned ()) \<and>
            count_of BlockReadyCb (lw (snd (listener_select (Some tc) reg (CtxDone, T) l))) =
              count_of BlockReadyCb (lw l) \<and>
            fst (stats_select (Some tc) (CtxDone, T) l) = Some (Returned ()) \<and>
            (\<forall>h b x. count_of (RecordNetworkStats h b x) (lw (snd (stats_select (Some tc) (CtxDone, T) l))) =
               count_of (RecordNetworkStats h b x) (lw l))"
    if nb: "\<not> buffered (fire_until T (ticker l))"
  proof -
    from nb have nb': "\<not> buffered (fire_until (max (now (lw l)) tc) (ticker l))" by (simp add: T_def)
    have r: "ready (Some tc) reg l CtxDone T" for reg
      unfolding T_def by (rule ready_cancel_alone [OF nb'])
    have 1: "\<forall>c t. ready (Some tc) reg l c t \<and> tc \<le> t \<and> c \<noteq> BlockReadyChan \<longrightarrow> c = CtxDone"
      using only_cancel_ready [OF nb'] by blast
    have 2: "fst (listener_select (Some tc) reg (CtxDone, T) l) = Some (Returned ())"
      "count_of BlockReadyCb (lw (snd (listener_select (Some tc) reg (CtxDone, T) l))) =
         count_of BlockReadyCb (lw l)"
      by (simp_all add: listener_select_done [OF r] count_of_emit)
    have 3: "fst (stats_select (Some tc) (CtxDone, T) l) = Some (Returned ())"
      "count_of (RecordNetworkStats h b x) (lw (snd (stats_select (Some tc) (CtxDone, T) l))) =
         count_of (RecordNetworkStats h b x) (lw l)" for h b x
      by (simp_all add: stats_select_done [OF r] count_of_emit)
    from r 1 2 3 show ?thesis by blast
  qed
  from A B C D E F show ?thesis by blast
qed

text \<open>
  A listener that receives a tick at second 30 and the cancellation at second 40, and a
  stats thread that receives the cancellation at second 20. With a cancellation at second
  10 and nothing else ready, neither loop can wait for the tick of second 30: the
  cancellation is received at second 10, with no callback.
\<close>

theorem cancellation_received_ends_loop_witness:
  "Recv CtxDone \<notin> set (map snd (trace world_synced_feed)) \<and>
   startBlockTemplateListener (Some 40) [(TickerC, 30), (CtxDone, 40)] world_synced_feed =
     (Returned (),
      \<lparr>lw = world_synced_feed
         \<lparr>now := 40,
          trace :=
            [(0, RegisterForNewBlockTemplateNotifications), (0, GetInfo),
             (30, Recv TickerC), (30, BlockReadyCb), (30, GetInfo),
             (40, Recv CtxDone),
             (40, Log LWarn ''context cancelled, stopping block update listener'' None)],
          env := env0\<rparr>,
       ticker = \<lparr>period = 30, next_fire = 60, buffered = False\<rparr>\<rparr>) \<and>
   startStatsThread (Some 20) [(CtxDone, 20)] world_synced_feed =
     (Returned (),
      \<lparr>lw = world_synced_feed
         \<lparr>now := 20,
          trace := [(20, Recv CtxDone), (20, Log LWarn ''context cancelled, stopping stats thread'' None)]\<rparr>,
       ticker = \<lparr>period = 30, next_fire = 30, buffered = False\<rparr>\<rparr>) \<and>
   fst (startBlockTemplateListener (Some 10) [(TickerC, 30)] world_synced_feed) = Impossible \<and>
   fst (startStatsThread (Some 10) [(TickerC, 30)] world_synced_feed) = Impossible \<and>
   \<not> buffered (fire_until (max (now (lw feed0)) 10) (ticker feed0)) \<and>
   ready (Some 10) True feed0 CtxDone 10 \<and>
   \<not> ready (Some 10) True feed0 TickerC 30 \<and>
   fst (listener_select (Some 10) True (CtxDone, 10) feed0) = Some (Returned ()) \<and>
   count_of BlockReadyCb (lw (snd (listener_select (Some 10) True (CtxDone, 10) feed0))) = 0 \<and>
   fst (stats_select (Some 10) (CtxDone, 10) feed0) = Some (Returned ())"
proof -
  have h: "Recv CtxDone \<notin> set (map snd (trace world_synced_feed))"
    by (simp add: world_synced_feed_def example_worlds)
  have f: "startBlockTemplateListener (Some 40) [(TickerC, 30), (CtxDone, 40)] world_synced_feed =
     (Returned (),
      \<lparr>lw = world_synced_feed
         \<lparr>now := 40,
          trace :=
            [(0, RegisterForNewBlockTemplateNotifications), (0, GetInfo),
             (30, Recv TickerC), (30, BlockReadyCb), (30, GetInfo),
             (40, Recv CtxDone),
             (40, Log LWarn ''context cancelled, stopping block update listener'' None)],
          env := env0\<rparr>,
       ticker = \<lparr>period = 30, next_fire = 60, buffered = False\<rparr>\<rparr>)"
    by (simp add: world_synced_feed_def example_worlds run_defs)
  have s: "startStatsThread (Some 20) [(CtxDone, 20)] world_synced_feed =
     (Returned (),
      \<lparr>lw = world_synced_feed
         \<lparr>now := 20,
          trace := [(20, Recv CtxDone), (20, Log LWarn ''context cancelled, stopping stats thread'' None)]\<rparr>,
       ticker = \<lparr>period = 30, next_fire = 30, buffered = False\<rparr>\<rparr>)"
    by (simp add: world_synced_feed_def example_worlds startStatsThread_def stats_select_def run_defs)
  have i: "fst (startBlockTemplateListener (Some 10) [(TickerC, 30)] world_synced_feed) = Impossible"
    "fst (startStatsThread (Some 10) [(TickerC, 30)] world_synced_feed) = Impossible"
    "\<not> ready (Some 10) True feed0 TickerC 30"
    by (simp_all add: world_synced_feed_def feed0_def example_worlds startStatsThread_def
          stats_select_def run_defs)
  have m: "max (now (lw feed0)) 10 = 10" "count_of BlockReadyCb (lw feed0) = 0"
    by (simp_all add: feed0_def example_worlds count_of_def)
  have nb: "\<not> buffered (fire_until (max (now (lw feed0)) 10) (ticker feed0))"
    by (simp add: feed0_def example_worlds fire_until_def)
  from cancellation_received_ends_loop [where w = world_synced_feed and l = feed0 and tc = 10
      and reg = True, OF h] nb
  have "ready (Some 10) True feed0 CtxDone (max (now (lw feed0)) 10) \<and>
        fst (listener_select (Some 10) True (CtxDone, max (now (lw feed0)) 10) feed0) = Some (Returned ()) \<and>
        count_of BlockReadyCb (lw (snd (listener_select (Some 10) True (CtxDone, max (now (lw feed0)) 10) feed0))) =
          count_of BlockReadyCb (lw feed0) \<and>
        fst (stats_select (Some 10) (CtxDone, max (now (lw feed0)) 10) feed0) = Some (Returned ())"
    by blast
  then have sole: "ready (Some 10) True feed0 CtxDone 10"
    "fst (listener_select (Some 10) True (CtxDone, 10) feed0) = Some (Returned ())"
    "count_of BlockReadyCb (lw (snd (listener_select (Some 10) True (CtxDone, 10) feed0))) = 0"
    "fst (stats_select (Some 10) (CtxDone, 10) feed0) = Some (Returned ())"
    by (simp_all only: m)
  from h f s i nb sole show ?thesis by simp
qed

subsection \<open>C7: the \<^verbatim>\<open>connected\<close> field\<close>

text \<open>
  C7 as stated does not hold: \<^verbatim>\<open>reconnect\<close> does not write the field. A reconnect that
  fails leaves it true, and a reconnect that succeeds on a manager whose field is false
  leaves it false.
\<close>

theorem reconnect_leaves_connected_counterexample:
  "connected (ks world_node_down) \<and>
   reconnect world_node_down =
     (Returned (Some (RpcError ''connection refused'')),
      world_node_down\<lparr>trace := [(0, Reconnect)],
                      env := (env world_node_down)\<lparr>reconnects := []\<rparr>\<rparr>) \<and>
   connected (ks (snd (reconnect world_node_down))) \<and>
   \<not> connected (ks world_flag_down) \<and>
   fst (reconnect world_flag_down) = Returned None \<and>
   \<not> connected (ks (snd (reconnect world_flag_down)))"
  by (simp add: world_node_down_def world_flag_down_def example_worlds reconnect_def emit_def)

text \<open>
  C7, amended. The \<^verbatim>\<open>connected\<close> field is set to true by the constructor and is
  changed by no operation of the manager, \<^verbatim>\<open>reconnect\<close> included.
\<close>

theorem connected_written_by_no_operation:
  "NewPyrinApi addr bwt (Inr c) =
     Inr \<lparr>address = addr, blockWaitTime = bwt, pyrind = Some c, connected = True\<rparr> \<and>
   connected (ks (snd (reconnect w))) = connected (ks w) \<and>
   connected (ks (snd (waitForSync v w))) = connected (ks w) \<and>
   connected (ks (snd (Start w))) = connected (ks w) \<and>
   connected (ks (lw (snd (startBlockTemplateListener ctx sched w)))) = connected (ks w) \<and>
   connected (ks (lw (snd (startStatsThread ctx sched w)))) = connected (ks w) \<and>
   connected (ks (snd (GetBlockTemplate version client w))) = connected (ks w)"
proof -
  have 1: "connected (ks (snd (reconnect w))) = connected (ks w)"
    using reconnect_quiet [of w "fst (reconnect w)" "snd (reconnect w)"] by (simp add: quiet_ext_def)
  have 2: "connected (ks (snd (waitForSync v w))) = connected (ks w)"
    using waitForSync_quiet [of v w "fst (waitForSync v w)" "snd (waitForSync v w)"]
    by (simp add: quiet_ext_def)
  show ?thesis
    using 1 2 Start_quiet_but_go startBlockTemplateListener_connected
    by (simp add: NewPyrinApi_def startStatsThread_ks GetBlockTemplate_ks)
qed

subsection \<open>C8: the ticks of the stats thread\<close>

text \<open>
  C8 (for a manager with a client). The stats thread is its loop, started with a ticker of
  30 seconds. On every tick the loop receives, a failed DAG info query is logged and the
  loop goes on to its next \<^verbatim>\<open>select\<close> after that one call; a failed hashrate query is
  logged and the loop goes on after the two calls; nothing is retried and nothing is
  forwarded. When both queries succeed, the loop forwards exactly one sample, the hashrate
  of the second answer with the block count and the difficulty of the first, and goes on.
  A sample is forwarded only then. The tick hands no error on and leaves the manager as it
  was.
\<close>

theorem stats_poller_tick_best_effort:
  fixes ctx :: "int option" and l :: loop_state and t :: int
    and sched :: "(select_case \<times> int) list" and w0 :: world
  assumes "pyrind (ks (lw l)) \<noteq> None" and "ready ctx False l TickerC t"
  defines "w \<equiv> lw l"
      and "tk \<equiv> (fire_until t (ticker l))\<lparr>buffered := False\<rparr>"
  shows "startStatsThread ctx sched w0 =
           stats_loop ctx sched
             \<lparr>lw = w0, ticker = \<lparr>period = 30, next_fire = now w0 + 30, buffered = False\<rparr>\<rparr> \<and>
         (dags (env w) = Inl err # ds \<longrightarrow>
            stats_loop ctx ((TickerC, t) # sched) l =
              stats_loop ctx sched
                \<lparr>lw = w\<lparr>now := t,
                          trace := trace w @
                            [(t, Recv TickerC), (t, GetBlockDAGInfo),
                             (t, Log LWarn ''failed to get network hashrate from pyrin, prom stats will be out of date''
                                   (Some err))],
                          env := (env w)\<lparr>dags := ds\<rparr>\<rparr>,
                 ticker = tk\<rparr>) \<and>
         (dags (env w) = Inr d # ds \<and> TipHashes d = tip # tips \<and> hashrates (env w) = Inl err # hs \<longrightarrow>
            stats_loop ctx ((TickerC, t) # sched) l =
              stats_loop ctx sched
                \<lparr>lw = w\<lparr>now := t,
                          trace := trace w @
                            [(t, Recv TickerC), (t, GetBlockDAGInfo),
                             (t, EstimateNetworkHashesPerSecond tip 1000),
                             (t, Log LWarn ''failed to get network hashrate from pyrin, prom stats will be out of date''
                                   (Some err))],
                          env := (env w)\<lparr>dags := ds, hashrates := hs\<rparr>\<rparr>,
                 ticker = tk\<rparr>) \<and>
         (dags (env w) = Inr d # ds \<and> TipHashes d = tip # tips \<and> hashrates (env w) = Inr hps # hs \<longrightarrow>
            stats_loop ctx ((TickerC, t) # sched) l =
              stats_loop ctx sched
                \<lparr>lw = w\<lparr>now := t,
                          trace := trace w @
                            [(t, Recv TickerC), (t, GetBlockDAGInfo),
                             (t, EstimateNetworkHashesPerSecond tip 1000),
                             (t, RecordNetworkStats hps (BlockCount d) (Difficulty d))],
                          env := (env w)\<lparr>dags := ds, hashrates := hs\<rparr>\<rparr>,
                 ticker = tk\<rparr>) \<and>
         ((\<exists>t' h b x. (t', RecordNetworkStats h b x)
              \<in> set (drop (length (trace w)) (trace (lw (snd (stats_select ctx (TickerC, t) l)))))) \<longrightarrow>
            (\<exists>d ds tip tips hps hs.
               dags (env w) = Inr d # ds \<and> TipHashes d = tip # tips \<and> hashrates (env w) = Inr hps # hs)) \<and>
         ks (lw (snd (stats_select ctx (TickerC, t) l))) = ks w"
proof -
  let ?W = "emit (Recv TickerC) (w\<lparr>now := t\<rparr>)"
  have sel: "stats_select ctx (TickerC, t) l =
      (fst (stats_tick ?W), l\<lparr>lw := snd (stats_tick ?W), ticker := tk\<rparr>)"
    unfolding w_def tk_def by (rule stats_select_tick [OF assms(2)])
  have W: "pyrind (ks ?W) \<noteq> None" "dags (env ?W) = dags (env w)" "hashrates (env ?W) = hashrates (env w)"
    "now ?W = t" "trace ?W = trace w @ [(t, Recv TickerC)]" "env ?W = env w"
    using assms(1) by (simp_all add: emit_def w_def)
  have step: "stats_loop ctx ((TickerC, t) # sched) l = stats_loop ctx sched \<lparr>lw = w', ticker = tk\<rparr>"
    if "stats_tick ?W = (None, w')" for w'
    using that by (simp add: sel loop_state_all_updated)
  have A: "stats_loop ctx ((TickerC, t) # sched) l =
              stats_loop ctx sched
                \<lparr>lw = w\<lparr>now := t,
                          trace := trace w @
                            [(t, Recv TickerC), (t, GetBlockDAGInfo),
                             (t, Log LWarn ''failed to get network hashrate from pyrin, prom stats will be out of date''
                                   (Some err))],
                          env := (env w)\<lparr>dags := ds\<rparr>\<rparr>,
                 ticker = tk\<rparr>"
    if "dags (env w) = Inl err # ds"
  proof (rule step)
    from that have "dags (env ?W) = Inl err # ds" by (simp add: W)
    from stats_tick_dag_fails [OF W(1) this] show "stats_tick ?W =
      (None, w\<lparr>now := t,
                trace := trace w @
                  [(t, Recv TickerC), (t, GetBlockDAGInfo),
                   (t, Log LWarn ''failed to get network hashrate from pyrin, prom stats will be out of date''
                         (Some err))],
                env := (env w)\<lparr>dags := ds\<rparr>\<rparr>)"
      by (simp add: W) (simp add: emit_def)
  qed
  have B: "stats_loop ctx ((TickerC, t) # sched) l =
              stats_loop ctx sched
                \<lparr>lw = w\<lparr>now := t,
                          trace := trace w @
                            [(t, Recv TickerC), (t, GetBlockDAGInfo),
                             (t, EstimateNetworkHashesPerSecond tip 1000),
                             (t, Log LWarn ''failed to get network hashrate from pyrin, prom stats will be out of date''
                                   (Some err))],
                          env := (env w)\<lparr>dags := ds, hashrates := hs\<rparr>\<rparr>,
                 ticker = tk\<rparr>"
    if "dags (env w) = Inr d # ds" "TipHashes d = tip # tips" "hashrates (env w) = Inl err # hs"
  proof (rule step)
    from that have "dags (env ?W) = Inr d # ds" "hashrates (env ?W) = Inl err # hs" by (simp_all add: W)
    from stats_tick_hashrate_fails [OF W(1) this(1) that(2) this(2)] show "stats_tick ?W =
      (None, w\<lparr>now := t,
                trace := trace w @
                  [(t, Recv TickerC), (t, GetBlockDAGInfo),
                   (t, EstimateNetworkHashesPerSecond tip 1000),
                   (t, Log LWarn ''failed to get network hashrate from pyrin, prom stats will be out of date''
                         (Some err))],
                env := (env w)\<lparr>dags := ds, hashrates := hs\<rparr>\<rparr>)"
      by (simp add: W) (simp add: emit_def)
  qed
  have C: "stats_loop ctx ((TickerC, t) # sched) l =
              stats_loop ctx sched
                \<lparr>lw = w\<lparr>now := t,
                          trace := trace w @
                            [(t, Recv TickerC), (t, GetBlockDAGInfo),
                             (t, EstimateNetworkHashesPerSecond tip 1000),
                             (t, RecordNetworkStats hps (BlockCount d) (Difficulty d))],
                          env := (env w)\<lparr>dags := ds, hashrates := hs\<rparr>\<rparr>,
                 ticker = tk\<rparr>"
    if "dags (env w) = Inr d # ds" "TipHashes d = tip # tips" "hashrates (env w) = Inr hps # hs"
  proof (rule step)
    from that have "dags (env ?W) = Inr d # ds" "hashrates (env ?W) = Inr hps # hs" by (simp_all add: W)
    from stats_tick_sample [OF W(1) this(1) that(2) this(2)] show "stats_tick ?W =
      (None, w\<lparr>now := t,
                trace := trace w @
                  [(t, Recv TickerC), (t, GetBlockDAGInfo),
                   (t, EstimateNetworkHashesPerSecond tip 1000),
                   (t, RecordNetworkStats hps (BlockCount d) (Difficulty d))],
                env := (env w)\<lparr>dags := ds, hashrates := hs\<rparr>\<rparr>)"
      by (simp add: W) (simp add: emit_def)
  qed
  have D: "\<exists>d ds tip tips hps hs.
               dags (env w) = Inr d # ds \<and> TipHashes d = tip # tips \<and> hashrates (env w) = Inr hps # hs"
    if "\<exists>t' h b x. (t', RecordNetworkStats h b x)
              \<in> set (drop (length (trace w)) (trace (lw (snd (stats_select ctx (TickerC, t) l)))))"
  proof -
    from that obtain t' h b x where
      m: "(t', RecordNetworkStats h b x) \<in> set (drop (length (trace w)) (trace (snd (stats_tick ?W))))"
      by (auto simp: sel)
    from stats_tick_frame [of ?W "fst (stats_tick ?W)" "snd (stats_tick ?W)"] obtain ys where
      ys: "trace (snd (stats_tick ?W)) = trace ?W @ ys" by auto
    from m have "(t', RecordNetworkStats h b x) \<in> set (drop (length (trace ?W)) (trace (snd (stats_tick ?W))))"
      unfolding ys W(5) by auto
    from stats_tick_sample_only [OF this] show ?thesis by (simp add: W)
  qed
  have E: "ks (lw (snd (stats_select ctx (TickerC, t) l))) = ks w"
    using stats_tick_frame [of ?W "fst (stats_tick ?W)" "snd (stats_tick ?W)"]
    by (simp add: sel emit_fields)
  have S: "startStatsThread ctx sched w0 =
           stats_loop ctx sched
             \<lparr>lw = w0, ticker = \<lparr>period = 30, next_fire = now w0 + 30, buffered = False\<rparr>\<rparr>"
    by (simp add: startStatsThread_def NewTicker_def)
  from S A B C D E show ?thesis by blast
qed

text \<open>
  A stats thread over three ticks: a failed DAG info query at second 30, a failed hashrate
  query at second 60, two successes and one sample at second 90.
\<close>

theorem stats_poller_tick_best_effort_witness:
  "pyrind (ks (lw stats0)) \<noteq> None \<and>
   ready None False stats0 TickerC 30 \<and>
   dags (env (lw stats0)) = Inl (RpcError ''timeout'') # [Inr dag_one_tip, Inr dag_one_tip] \<and>
   startStatsThread None [(TickerC, 30), (TickerC, 60), (TickerC, 90)] (lw stats0) =
     (Blocked,
      \<lparr>lw = world0
         \<lparr>now := 90,
          trace :=
            [(30, Recv TickerC), (30, GetBlockDAGInfo),
             (30, Log LWarn ''failed to get network hashrate from pyrin, prom stats will be out of date''
                    (Some (RpcError ''timeout''))),
             (60, Recv TickerC), (60, GetBlockDAGInfo),
             (60, EstimateNetworkHashesPerSecond ''a3f1'' 1000),
             (60, Log LWarn ''failed to get network hashrate from pyrin, prom stats will be out of date''
                    (Some (RpcError ''timeout''))),
             (90, Recv TickerC), (90, GetBlockDAGInfo),
             (90, EstimateNetworkHashesPerSecond ''a3f1'' 1000),
             (90, RecordNetworkStats 5000000 1200 0x4059000000000000)]\<rparr>,
       ticker = \<lparr>period = 30, next_fire = 120, buffered = False\<rparr>\<rparr>)"
proof -
  let ?rest = "[(TickerC, 60), (TickerC, 90)]"
  let ?l1 = "\<lparr>lw = (lw stats0)
                \<lparr>now := 30,
                 trace := trace (lw stats0) @
                   [(30, Recv TickerC), (30, GetBlockDAGInfo),
                    (30, Log LWarn ''failed to get network hashrate from pyrin, prom stats will be out of date''
                           (Some (RpcError ''timeout'')))],
                 env := (env (lw stats0))\<lparr>dags := [Inr dag_one_tip, Inr dag_one_tip]\<rparr>\<rparr>,
              ticker = (fire_until 30 (ticker stats0))\<lparr>buffered := False\<rparr>\<rparr>"
  have p: "pyrind (ks (lw stats0)) \<noteq> None"
    and r: "ready None False stats0 TickerC 30"
    and d: "dags (env (lw stats0)) = Inl (RpcError ''timeout'') # [Inr dag_one_tip, Inr dag_one_tip]"
    by (simp_all add: stats0_def example_worlds ready_def prompt_def fire_until_def)
  have start: "startStatsThread None ((TickerC, 30) # ?rest) (lw stats0) =
      stats_loop None ((TickerC, 30) # ?rest)
        \<lparr>lw = lw stats0, ticker = \<lparr>period = 30, next_fire = now (lw stats0) + 30, buffered = False\<rparr>\<rparr>"
    by (rule stats_poller_tick_best_effort [where l = stats0 and t = 30 and ctx = None
          and sched = "(TickerC, 30) # ?rest" and ?w0.0 = "lw stats0", OF p r, THEN conjunct1])
  have s0: "\<lparr>lw = lw stats0, ticker = \<lparr>period = 30, next_fire = now (lw stats0) + 30, buffered = False\<rparr>\<rparr> = stats0"
    by (simp add: stats0_def example_worlds)
  have first: "stats_loop None ((TickerC, 30) # ?rest) stats0 = stats_loop None ?rest ?l1"
    by (rule stats_poller_tick_best_effort [where l = stats0 and t = 30 and ctx = None
          and sched = ?rest and err = "RpcError ''timeout''" and ds = "[Inr dag_one_tip, Inr dag_one_tip]",
          OF p r, THEN conjunct2, THEN conjunct1, THEN mp, OF d])
  have rest: "stats_loop None ?rest ?l1 =
     (Blocked,
      \<lparr>lw = world0
         \<lparr>now := 90,
          trace :=
            [(30, Recv TickerC), (30, GetBlockDAGInfo),
             (30, Log LWarn ''failed to get network hashrate from pyrin, prom stats will be out of date''
                    (Some (RpcError ''timeout''))),
             (60, Recv TickerC), (60, GetBlockDAGInfo),
             (60, EstimateNetworkHashesPerSecond ''a3f1'' 1000),
             (60, Log LWarn ''failed to get network hashrate from pyrin, prom stats will be out of date''
                    (Some (RpcError ''timeout''))),
             (90, Recv TickerC), (90, GetBlockDAGInfo),
             (90, EstimateNetworkHashesPerSecond ''a3f1'' 1000),
             (90, RecordNetworkStats 5000000 1200 0x4059000000000000)]\<rparr>,
       ticker = \<lparr>period = 30, next_fire = 120, buffered = False\<rparr>\<rparr>)"
    by (simp add: stats0_def dag_one_tip_def example_worlds stats_select_def stats_tick_def run_defs)
  from start s0 first rest p r d show ?thesis by simp
qed

subsection \<open>C9: a failed registration\<close>

text \<open>
  C9 (for a manager with a client and a positive interval). When the registration for
  push notifications fails, the failure is logged at error
  level and the listener goes into its loop all the same, with a fresh ticker and with no
  notification ever arriving. The run does not panic, it receives no push, and it has
  invoked the callback exactly once for every tick it has received.
\<close>

theorem failed_registration_leaves_timer_only_feed:
  fixes ctx :: "int option" and sched :: "(select_case \<times> int) list" and w :: world
  assumes "pyrind (ks w) \<noteq> None" and "registrations (env w) = Some err # rs"
      and "0 < blockWaitTime (ks w)"
  defines "feed \<equiv> startBlockTemplateListener ctx sched w"
  shows "feed =
           listener_loop ctx False sched
             \<lparr>lw = emit (Log LError ''fatal: failed to register for block notifications from pyrin'' None)
                     ((emit RegisterForNewBlockTemplateNotifications w)
                        \<lparr>env := (env w)\<lparr>registrations := rs\<rparr>\<rparr>),
              ticker = \<lparr>period = blockWaitTime (ks w), next_fire = now w + blockWaitTime (ks w),
                         buffered = False\<rparr>\<rparr> \<and>
         (now w, Log LError ''fatal: failed to register for block notifications from pyrin'' None)
           \<in> set (trace (lw (snd feed))) \<and>
         fst feed \<noteq> Panicked \<and>
         count_of (Recv BlockReadyChan) (lw (snd feed)) = count_of (Recv BlockReadyChan) w \<and>
         count_of BlockReadyCb (lw (snd feed)) + count_of (Recv TickerC) w =
           count_of BlockReadyCb w + count_of (Recv TickerC) (lw (snd feed))"
proof -
  let ?w2 = "emit (Log LError ''fatal: failed to register for block notifications from pyrin'' None)
               ((emit RegisterForNewBlockTemplateNotifications w)\<lparr>env := (env w)\<lparr>registrations := rs\<rparr>\<rparr>)"
  let ?l = "\<lparr>lw = ?w2, ticker = \<lparr>period = blockWaitTime (ks w), next_fire = now w + blockWaitTime (ks w),
                         buffered = False\<rparr>\<rparr>"
  from assms(1) obtain c where c: "pyrind (ks w) = Some c" by auto
  have eq: "feed = listener_loop ctx False sched ?l"
    unfolding feed_def startBlockTemplateListener_def Let_def
    using assms(3) by (simp add: c assms(2) NewTicker_def emit_fields)
  then have run: "listener_loop ctx False sched ?l = (fst feed, snd feed)" by simp
  have p: "pyrind (ks (lw ?l)) \<noteq> None" using assms(1) by (simp add: emit_fields)
  note u = listener_loop_unregistered [OF p run]
  have c2: "count_of (Recv BlockReadyChan) ?w2 = count_of (Recv BlockReadyChan) w"
    "count_of BlockReadyCb ?w2 = count_of BlockReadyCb w"
    "count_of (Recv TickerC) ?w2 = count_of (Recv TickerC) w"
    by (simp_all add: count_of_emit)
  have "(now w, Log LError ''fatal: failed to register for block notifications from pyrin'' None)
          \<in> set (trace ?w2)"
    by (simp add: emit_def)
  moreover from listener_loop_trace_grows [OF run] obtain ys where
    "trace (lw (snd feed)) = trace ?w2 @ ys" by auto
  ultimately have lg: "(now w, Log LError ''fatal: failed to register for block notifications from pyrin'' None)
          \<in> set (trace (lw (snd feed)))" by simp
  from eq lg u c2 show ?thesis by simp
qed

text \<open>
  The registration fails and the ticks of seconds 30 and 60 are received: two callbacks. A
  push cannot be received.
\<close>

theorem failed_registration_leaves_timer_only_feed_witness:
  "pyrind (ks world_registration_fails) \<noteq> None \<and>
   registrations (env world_registration_fails) = Some (RpcError ''notifications unavailable'') # [] \<and>
   0 < blockWaitTime (ks world_registration_fails) \<and>
   startBlockTemplateListener None [(TickerC, 30), (TickerC, 60)] world_registration_fails =
     (Blocked,
      \<lparr>lw = world_registration_fails
         \<lparr>now := 60,
          trace :=
            [(0, RegisterForNewBlockTemplateNotifications),
             (0, Log LError ''fatal: failed to register for block notifications from pyrin'' None),
             (0, GetInfo), (30, Recv TickerC), (30, BlockReadyCb),
             (30, GetInfo), (60, Recv TickerC), (60, BlockReadyCb),
             (60, GetInfo)],
          env := env0\<rparr>,
       ticker = \<lparr>period = 30, next_fire = 90, buffered = False\<rparr>\<rparr>) \<and>
   count_of BlockReadyCb
     (lw (snd (startBlockTemplateListener None [(TickerC, 30), (TickerC, 60)] world_registration_fails))) = 2 \<and>
   fst (startBlockTemplateListener None [(BlockReadyChan, 10)] world_registration_fails) = Impossible"
proof -
  have h: "pyrind (ks world_registration_fails) \<noteq> None"
    "registrations (env world_registration_fails) = Some (RpcError ''notifications unavailable'') # []"
    "0 < blockWaitTime (ks world_registration_fails)"
    by (simp_all add: world_registration_fails_def example_worlds)
  have c0: "count_of BlockReadyCb world_registration_fails = 0"
    "count_of (Recv TickerC) world_registration_fails = 0"
    by (simp_all add: world_registration_fails_def example_worlds count_of_def)
  have run: "startBlockTemplateListener None [(TickerC, 30), (TickerC, 60)] world_registration_fails =
     (Blocked,
      \<lparr>lw = world_registration_fails
         \<lparr>now := 60,
          trace :=
            [(0, RegisterForNewBlockTemplateNotifications),
             (0, Log LError ''fatal: failed to register for block notifications from pyrin'' None),
             (0, GetInfo), (30, Recv TickerC), (30, BlockReadyCb),
             (30, GetInfo), (60, Recv TickerC), (60, BlockReadyCb),
             (60, GetInfo)],
          env := env0\<rparr>,
       ticker = \<lparr>period = 30, next_fire = 90, buffered = False\<rparr>\<rparr>)"
    by (simp add: world_registration_fails_def example_worlds run_defs)
  have t2: "count_of (Recv TickerC)
     (lw (snd (startBlockTemplateListener None [(TickerC, 30), (TickerC, 60)] world_registration_fails))) = 2"
    unfolding run by (simp add: count_of_def)
  have imp: "fst (startBlockTemplateListener None [(BlockReadyChan, 10)] world_registration_fails) = Impossible"
    by (simp add: world_registration_fails_def example_worlds run_defs)
  from failed_registration_leaves_timer_only_feed [OF h, of None "[(TickerC, 30), (TickerC, 60)]"]
  have "count_of BlockReadyCb
          (lw (snd (startBlockTemplateListener None [(TickerC, 30), (TickerC, 60)] world_registration_fails))) +
        count_of (Recv TickerC) world_registration_fails =
        count_of BlockReadyCb world_registration_fails +
        count_of (Recv TickerC)
          (lw (snd (startBlockTemplateListener None [(TickerC, 30), (TickerC, 60)] world_registration_fails)))"
    by (elim conjE)
  then have "count_of BlockReadyCb
     (lw (snd (startBlockTemplateListener None [(TickerC, 30), (TickerC, 60)] world_registration_fails))) = 2"
    by (simp only: c0 t2)
  with h run imp show ?thesis by simp
qed

subsection \<open>C10: the first tip hash is read unguarded\<close>

text \<open>
  C10 (for a manager with a client). A tick whose DAG info query succeeds reads the first tip hash with no check that
  there is one. With an empty list of tip hashes the tick panics (index out of range)
  right after the query; with a non-empty list it does not, and the hashrate query is
  made with the first tip hash.
\<close>

theorem stats_tick_indexes_first_tip_unguarded:
  assumes "pyrind (ks w) \<noteq> None" and "dags (env w) = Inr d # ds"
  shows "(TipHashes d = [] \<longrightarrow>
            stats_tick w =
              (Some Panicked, w\<lparr>trace := trace w @ [(now w, GetBlockDAGInfo)], env := (env w)\<lparr>dags := ds\<rparr>\<rparr>)) \<and>
         (TipHashes d \<noteq> [] \<longrightarrow>
            fst (stats_tick w) \<noteq> Some Panicked \<and>
            (now w, EstimateNetworkHashesPerSecond (hd (TipHashes d)) 1000) \<in> set (trace (snd (stats_tick w))))"
proof -
  from assms(1) obtain c where c: "pyrind (ks w) = Some c" by auto
  have A: "TipHashes d = [] \<Longrightarrow>
            stats_tick w =
              (Some Panicked, w\<lparr>trace := trace w @ [(now w, GetBlockDAGInfo)], env := (env w)\<lparr>dags := ds\<rparr>\<rparr>)"
    by (simp add: stats_tick_def c assms(2) emit_def)
  have B: "fst (stats_tick w) \<noteq> Some Panicked \<and>
            (now w, EstimateNetworkHashesPerSecond (hd (TipHashes d)) 1000) \<in> set (trace (snd (stats_tick w)))"
    if "TipHashes d \<noteq> []"
  proof -
    from that obtain tip tips where t: "TipHashes d = tip # tips" by (cases "TipHashes d") auto
    show ?thesis
      by (simp add: stats_tick_def c assms(2) t emit_def Let_def split: list.splits sum.splits)
  qed
  from A B show ?thesis by blast
qed

text \<open>
  An answer without tip hashes makes the tick, and with it the stats thread, panic; an answer
  with two tip hashes does not.
\<close>

theorem stats_tick_indexes_first_tip_unguarded_witness:
  "pyrind (ks (world_stats [Inr dag_no_tips] [Inr 5000000])) \<noteq> None \<and>
   dags (env (world_stats [Inr dag_no_tips] [Inr 5000000])) = Inr dag_no_tips # [] \<and>
   TipHashes dag_no_tips = [] \<and>
   stats_tick (world_stats [Inr dag_no_tips] [Inr 5000000]) =
     (Some Panicked, (world_stats [] [Inr 5000000])\<lparr>trace := [(0, GetBlockDAGInfo)]\<rparr>) \<and>
   fst (startStatsThread None [(TickerC, 30)] (world_stats [Inr dag_no_tips] [Inr 5000000])) = Panicked \<and>
   pyrind (ks (world_stats [Inr dag_one_tip] [Inr 5000000])) \<noteq> None \<and>
   dags (env (world_stats [Inr dag_one_tip] [Inr 5000000])) = Inr dag_one_tip # [] \<and>
   TipHashes dag_one_tip \<noteq> [] \<and>
   fst (stats_tick (world_stats [Inr dag_one_tip] [Inr 5000000])) = None"
proof -
  have p: "pyrind (ks (world_stats ds hs)) \<noteq> None" for ds hs
    by (simp add: world_stats_def example_worlds)
  have d: "dags (env (world_stats ds hs)) = ds" for ds hs
    by (simp add: world_stats_def example_worlds)
  then have d1: "dags (env (world_stats [Inr dag_no_tips] [Inr 5000000])) = Inr dag_no_tips # []"
    and d2: "dags (env (world_stats [Inr dag_one_tip] [Inr 5000000])) = Inr dag_one_tip # []"
    by simp_all
  have t: "TipHashes dag_no_tips = []" "TipHashes dag_one_tip \<noteq> []"
    by (simp_all add: dag_no_tips_def dag_one_tip_def)
  have f: "(world_stats [Inr dag_no_tips] [Inr 5000000])
             \<lparr>trace := trace (world_stats [Inr dag_no_tips] [Inr 5000000]) @
                        [(now (world_stats [Inr dag_no_tips] [Inr 5000000]), GetBlockDAGInfo)],
              env := (env (world_stats [Inr dag_no_tips] [Inr 5000000]))\<lparr>dags := []\<rparr>\<rparr> =
           (world_stats [] [Inr 5000000])\<lparr>trace := [(0, GetBlockDAGInfo)]\<rparr>"
    by (simp add: world_stats_def example_worlds)
  from stats_tick_indexes_first_tip_unguarded [OF p d1] t(1) f
  have 1: "stats_tick (world_stats [Inr dag_no_tips] [Inr 5000000]) =
     (Some Panicked, (world_stats [] [Inr 5000000])\<lparr>trace := [(0, GetBlockDAGInfo)]\<rparr>)"
    by simp
  have 2: "fst (startStatsThread None [(TickerC, 30)] (world_stats [Inr dag_no_tips] [Inr 5000000])) = Panicked"
    by (simp add: world_stats_def example_worlds dag_no_tips_def startStatsThread_def stats_select_def
          stats_tick_def run_defs)
  have 3: "fst (stats_tick (world_stats [Inr dag_one_tip] [Inr 5000000])) = None"
    by (simp add: world_stats_def example_worlds dag_one_tip_def stats_tick_def emit_def)
  from stats_tick_indexes_first_tip_unguarded [OF p d2] p d1 d2 t 1 2 3 show ?thesis by simp
qed

end
